theory Spec2Isabelle
  imports Main
begin

section \<open>Data model of package cherrypick\<close>

text \<open>
  A Go \<^verbatim>\<open>error\<close> value is modelled by the text its \<^verbatim>\<open>Error()\<close> method returns; the nil
  error is \<open>None\<close> of \<open>err option\<close>.  A Go pointer \<^verbatim>\<open>*T\<close> is a \<open>T option\<close>, nil being
  \<open>None\<close>.  Go's \<^verbatim>\<open>int\<close> is modelled by \<open>int\<close>: the program never does arithmetic on
  the pull request number, it only compares it with zero and prints it.
\<close>

datatype err = Err string

fun Error_text :: "err \<Rightarrow> string" where
  "Error_text (Err s) = s"

text \<open>The fields of \<^verbatim>\<open>github.PullRequest\<close> that this repository reads or writes.\<close>

record PullRequest =
  Number :: "int option"
  State :: "string option"
  Merged :: "bool option"
  MergeCommitSHA :: "string option"
  HTMLURL :: "string option"

text \<open>The nil-safe getters of go-github: the zero value on a nil receiver or a nil field.\<close>

definition GetNumber :: "PullRequest option \<Rightarrow> int" where
  "GetNumber p = (case p of None \<Rightarrow> 0 | Some pr \<Rightarrow> (case Number pr of None \<Rightarrow> 0 | Some n \<Rightarrow> n))"

definition GetState :: "PullRequest option \<Rightarrow> string" where
  "GetState p = (case p of None \<Rightarrow> [] | Some pr \<Rightarrow> (case State pr of None \<Rightarrow> [] | Some s \<Rightarrow> s))"

definition GetMergeCommitSHA :: "PullRequest option \<Rightarrow> string" where
  "GetMergeCommitSHA p =
     (case p of None \<Rightarrow> [] | Some pr \<Rightarrow> (case MergeCommitSHA pr of None \<Rightarrow> [] | Some s \<Rightarrow> s))"

text \<open>\<^verbatim>\<open>github.NewPullRequest\<close>, as \<^verbatim>\<open>ProcessBranch\<close> fills it.\<close>

record NewPullRequest =
  Title :: "string option"
  Head :: "string option"
  Base :: "string option"
  Body :: "string option"

record Config =
  PRNumber :: int
  Branches :: "string list"
  RepoOwner :: string
  RepoName :: string
  GitUserName :: string
  GitUserEmail :: string

record Result =
  Branch :: string
  Success :: bool
  ExistingPR :: "PullRequest option"
  NewPR :: "PullRequest option"
  Error :: "err option"
  ErrorMessage :: string

section \<open>Formatting\<close>

text \<open>The verb \<^verbatim>\<open>%d\<close> of \<^verbatim>\<open>fmt.Sprintf\<close>: decimal digits, a minus sign for a negative number.\<close>

definition digit_char :: "nat \<Rightarrow> char" where
  "digit_char d = ''0123456789'' ! d"

fun show_nat :: "nat \<Rightarrow> string" where
  "show_nat n = (if n < 10 then [digit_char n] else show_nat (n div 10) @ [digit_char (n mod 10)])"

definition show_int :: "int \<Rightarrow> string" where
  "show_int i = (if i < 0 then CHR ''-'' # show_nat (nat (- i)) else show_nat (nat i))"

text \<open>\<^verbatim>\<open>fmt.Errorf("<prefix>%w", err)\<close>: the new error's text is the prefix followed by the
  wrapped error's text.\<close>

definition Errorf_w :: "string \<Rightarrow> err \<Rightarrow> err" where
  "Errorf_w prefix e = Err (prefix @ Error_text e)"

section \<open>The two ports and the programs that call them\<close>

text \<open>
  \<^verbatim>\<open>Service\<close> reaches the outside world only through its two interfaces,
  \<^verbatim>\<open>GitHubClient\<close> (\<^verbatim>\<open>GetPR\<close>, \<^verbatim>\<open>FindExistingPR\<close>, \<^verbatim>\<open>CreatePR\<close>) and \<^verbatim>\<open>GitRunner\<close>
  (\<^verbatim>\<open>Run\<close>), and through \<^verbatim>\<open>log.Printf\<close>.  A method of \<^verbatim>\<open>Service\<close> is modelled as a
  tree of such calls: each node is one call with its arguments, and has one subtree for
  every value the call can return.  \<open>Panic\<close> is a Go run-time panic.  A \<^verbatim>\<open>(value, error)\<close>
  pair of Go is the pair of two options: the interfaces allow all four combinations.
  The \<^verbatim>\<open>context.Context\<close> argument is handed through to the ports untouched and is
  left out.
\<close>

datatype 'a prog =
    Return 'a
  | Panic
  | Log string "'a prog"
  | Call_GetPR string string int "PullRequest option \<times> err option \<Rightarrow> 'a prog"
  | Call_FindExistingPR string string string string "PullRequest option \<times> err option \<Rightarrow> 'a prog"
  | Call_CreatePR string string NewPullRequest "PullRequest option \<times> err option \<Rightarrow> 'a prog"
  | Call_Run "string list" "err option \<Rightarrow> 'a prog"

text \<open>Calling a method and going on with its result.\<close>

primrec bind :: "'a prog \<Rightarrow> ('a \<Rightarrow> 'b prog) \<Rightarrow> 'b prog" where
  "bind (Return x) f = f x"
| "bind Panic f = Panic"
| "bind (Log s p) f = Log s (bind p f)"
| "bind (Call_GetPR owner repo number k) f = Call_GetPR owner repo number (\<lambda>r. bind (k r) f)"
| "bind (Call_FindExistingPR owner repo head base k) f =
     Call_FindExistingPR owner repo head base (\<lambda>r. bind (k r) f)"
| "bind (Call_CreatePR owner repo pr k) f = Call_CreatePR owner repo pr (\<lambda>r. bind (k r) f)"
| "bind (Call_Run args k) f = Call_Run args (\<lambda>r. bind (k r) f)"

section \<open>performGitOperations\<close>

definition performGitOperations :: "Config \<Rightarrow> string \<Rightarrow> string \<Rightarrow> string \<Rightarrow> err option prog" where
  "performGitOperations cfg targetBranch cherryPickBranch mergeCommit =
     Call_Run [''config'', ''user.name'', GitUserName cfg] (\<lambda>err. case err of
       Some e \<Rightarrow> Return (Some (Errorf_w ''failed to configure git user name: '' e))
     | None \<Rightarrow>
     Call_Run [''config'', ''user.email'', GitUserEmail cfg] (\<lambda>err. case err of
       Some e \<Rightarrow> Return (Some (Errorf_w ''failed to configure git user email: '' e))
     | None \<Rightarrow>
     Log (''Fetching target branch: '' @ targetBranch @ ''...'') (
     Call_Run [''fetch'', ''origin'', targetBranch] (\<lambda>err. case err of
       Some e \<Rightarrow> Return (Some (Errorf_w
         (''target branch '' @ [CHR 0x27] @ targetBranch @ [CHR 0x27] @
          '' does not exist or cannot be fetched: '') e))
     | None \<Rightarrow>
     Log (''Creating cherry-pick branch: '' @ cherryPickBranch @ ''...'') (
     Call_Run [''checkout'', ''-b'', cherryPickBranch, ''origin/'' @ targetBranch] (\<lambda>err. case err of
       Some e \<Rightarrow> Return (Some (Errorf_w ''failed to create cherry-pick branch: '' e))
     | None \<Rightarrow>
     Log (''Cherry-picking commit '' @ mergeCommit @ ''...'') (
     Call_Run [''cherry-pick'', ''-m'', ''1'', mergeCommit] (\<lambda>err. case err of
       Some e \<Rightarrow>
         Call_Run [''cherry-pick'', ''--abort''] (\<lambda>_.
         Return (Some (Errorf_w ''cherry-pick failed due to conflicts or other errors: '' e)))
     | None \<Rightarrow>
     Log ''Pushing cherry-pick branch...'' (
     Call_Run [''push'', ''origin'', cherryPickBranch] (\<lambda>err. case err of
       Some e \<Rightarrow> Return (Some (Errorf_w ''failed to push cherry-pick branch: '' e))
     | None \<Rightarrow> Return None))))))))))"

section \<open>ProcessBranch\<close>

text \<open>The name of the branch that carries the cherry-pick:
  \<^verbatim>\<open>fmt.Sprintf("cherry-pick-%d-to-%s", cfg.PRNumber, targetBranch)\<close>.\<close>

definition cherryPickBranch :: "Config \<Rightarrow> string \<Rightarrow> string" where
  "cherryPickBranch cfg targetBranch =
     ''cherry-pick-'' @ show_int (PRNumber cfg) @ ''-to-'' @ targetBranch"

text \<open>
  \<^verbatim>\<open>pr.Merged\<close> on a nil \<^verbatim>\<open>pr\<close> is a nil pointer dereference; the getters and
  \<^verbatim>\<open>existingPR.GetNumber()\<close>, \<^verbatim>\<open>newPR.GetNumber()\<close> are nil-safe.  The non-ASCII
  characters of the three log lines are written as their UTF-8 bytes.
\<close>

definition ProcessBranch :: "Config \<Rightarrow> string \<Rightarrow> Result prog" where
  "ProcessBranch cfg targetBranch =
    (let result = \<lparr>Branch = targetBranch, Success = False, ExistingPR = None, NewPR = None,
                    Error = None, ErrorMessage = []\<rparr> in
     Log ([CHR 0xF0, CHR 0x9F, CHR 0xA4, CHR 0x96] @ '' Starting cherry-pick to '' @ targetBranch @ ''...'') (
     Call_GetPR (RepoOwner cfg) (RepoName cfg) (PRNumber cfg) (\<lambda>(pr, err). case err of
       Some e \<Rightarrow>
         Return (result\<lparr>Error := Some e,
           ErrorMessage := ''Failed to fetch PR #'' @ show_int (PRNumber cfg) @ '': '' @ Error_text e\<rparr>)
     | None \<Rightarrow>
     (case pr of
       None \<Rightarrow> Panic
     | Some p \<Rightarrow>
     if Merged p = None \<or> Merged p = Some False then
       Return (result\<lparr>ErrorMessage := ''PR #'' @ show_int (PRNumber cfg) @ '' is not merged yet (state: '' @
         GetState pr @ ''). Cherry-pick requires merged PRs.''\<rparr>)
     else
     (let mergeCommit = GetMergeCommitSHA pr in
     Log (''Found merge commit: '' @ mergeCommit) (
     Call_FindExistingPR (RepoOwner cfg) (RepoName cfg) (cherryPickBranch cfg targetBranch) targetBranch
       (\<lambda>(existingPR, err).
     (case err of
       Some e \<Rightarrow> Log (''Warning: error checking for existing PR: '' @ Error_text e)
     | None \<Rightarrow> (\<lambda>rest. rest)) (
     if existingPR \<noteq> None then
       Log ([CHR 0xE2, CHR 0x84, CHR 0xB9, CHR 0xEF, CHR 0xB8, CHR 0x8F] @
            ''  Cherry-pick PR already exists: #'' @ show_int (GetNumber existingPR)) (
       Return (result\<lparr>Success := True, ExistingPR := existingPR\<rparr>))
     else
     bind (performGitOperations cfg targetBranch (cherryPickBranch cfg targetBranch) mergeCommit)
       (\<lambda>err. case err of
       Some e \<Rightarrow> Return (result\<lparr>Error := Some e, ErrorMessage := Error_text e\<rparr>)
     | None \<Rightarrow>
     (let title = ''Cherry-pick #'' @ show_int (PRNumber cfg) @ '' to '' @ targetBranch;
          body = ''Automatic cherry-pick of #'' @ show_int (PRNumber cfg) @ '' to `'' @ targetBranch @ ''`'' in
     Call_CreatePR (RepoOwner cfg) (RepoName cfg)
       \<lparr>Title = Some title, Head = Some (cherryPickBranch cfg targetBranch),
        Base = Some targetBranch, Body = Some body\<rparr> (\<lambda>(newPR, err). case err of
       Some e \<Rightarrow>
         Return (result\<lparr>Error := Some e,
           ErrorMessage := ''Failed to create pull request: '' @ Error_text e\<rparr>)
     | None \<Rightarrow>
     Log ([CHR 0xE2, CHR 0x9C, CHR 0x85] @ '' Cherry-pick completed successfully! PR #'' @
          show_int (GetNumber newPR) @ '' created'') (
     Return (result\<lparr>Success := True, NewPR := newPR\<rparr>)))))))))))))"

section \<open>Running a program against the ports\<close>

text \<open>
  An implementation of an interface is a record of functions over a state \<open>'w\<close> of the
  outside world (the repository on the hosting service, the working tree, or the recorded
  calls of a test double); \<^verbatim>\<open>Service\<close> holds one implementation of each interface.
  Running a program returns what it returned, the world it left, and the calls it made, in
  order, each with the value it got back.
\<close>

record 'w GitHubClient =
  GetPR :: "string \<Rightarrow> string \<Rightarrow> int \<Rightarrow> 'w \<Rightarrow> (PullRequest option \<times> err option) \<times> 'w"
  FindExistingPR ::
    "string \<Rightarrow> string \<Rightarrow> string \<Rightarrow> string \<Rightarrow> 'w \<Rightarrow> (PullRequest option \<times> err option) \<times> 'w"
  CreatePR ::
    "string \<Rightarrow> string \<Rightarrow> NewPullRequest \<Rightarrow> 'w \<Rightarrow> (PullRequest option \<times> err option) \<times> 'w"

type_synonym 'w GitRunner = "string list \<Rightarrow> 'w \<Rightarrow> err option \<times> 'w"

record 'w Service =
  github :: "'w GitHubClient"
  git :: "'w GitRunner"

datatype event =
    EvLog string
  | EvGetPR string string int "PullRequest option \<times> err option"
  | EvFindExistingPR string string string string "PullRequest option \<times> err option"
  | EvCreatePR string string NewPullRequest "PullRequest option \<times> err option"
  | EvRun "string list" "err option"

datatype 'a outcome = Returned 'a | Panicked

primrec exec :: "'w Service \<Rightarrow> 'a prog \<Rightarrow> 'w \<Rightarrow> 'a outcome \<times> 'w \<times> event list" where
  "exec s (Return x) = (\<lambda>w. (Returned x, w, []))"
| "exec s Panic = (\<lambda>w. (Panicked, w, []))"
| "exec s (Log msg p) = (\<lambda>w. case exec s p w of (out, w', tr) \<Rightarrow> (out, w', EvLog msg # tr))"
| "exec s (Call_GetPR owner repo number k) = (\<lambda>w.
     case GetPR (github s) owner repo number w of (r, w1) \<Rightarrow>
     (case exec s (k r) w1 of (out, w', tr) \<Rightarrow> (out, w', EvGetPR owner repo number r # tr)))"
| "exec s (Call_FindExistingPR owner repo head base k) = (\<lambda>w.
     case FindExistingPR (github s) owner repo head base w of (r, w1) \<Rightarrow>
     (case exec s (k r) w1 of (out, w', tr) \<Rightarrow>
        (out, w', EvFindExistingPR owner repo head base r # tr)))"
| "exec s (Call_CreatePR owner repo pr k) = (\<lambda>w.
     case CreatePR (github s) owner repo pr w of (r, w1) \<Rightarrow>
     (case exec s (k r) w1 of (out, w', tr) \<Rightarrow> (out, w', EvCreatePR owner repo pr r # tr)))"
| "exec s (Call_Run args k) = (\<lambda>w.
     case git s args w of (r, w1) \<Rightarrow>
     (case exec s (k r) w1 of (out, w', tr) \<Rightarrow> (out, w', EvRun args r # tr)))"

section \<open>DefaultGitHubClient\<close>

text \<open>
  \<^verbatim>\<open>DefaultGitHubClient\<close> wraps the client of the go-github library.  The library is not
  part of this repository: its three calls are the fields of \<open>github_Client\<close>, functions
  over the state of the world like the ports.  \<^verbatim>\<open>PullRequests.List\<close> returns a slice of
  pointers.  The fields \<^verbatim>\<open>State\<close>, \<^verbatim>\<open>Head\<close> and \<^verbatim>\<open>Base\<close> of
  \<^verbatim>\<open>github.PullRequestListOptions\<close> carry the prefix \<open>opt_\<close> here, and \<^verbatim>\<open>PerPage\<close> is the
  field of the embedded \<^verbatim>\<open>ListOptions\<close>.
\<close>

record PullRequestListOptions =
  opt_State :: string
  opt_Head :: string
  opt_Base :: string
  PerPage :: int

record 'w github_Client =
  PullRequests_Get :: "string \<Rightarrow> string \<Rightarrow> int \<Rightarrow> 'w \<Rightarrow> (PullRequest option \<times> err option) \<times> 'w"
  PullRequests_List ::
    "string \<Rightarrow> string \<Rightarrow> PullRequestListOptions \<Rightarrow> 'w \<Rightarrow> (PullRequest option list \<times> err option) \<times> 'w"
  PullRequests_Create ::
    "string \<Rightarrow> string \<Rightarrow> NewPullRequest \<Rightarrow> 'w \<Rightarrow> (PullRequest option \<times> err option) \<times> 'w"

definition DefaultGitHubClient_GetPR ::
  "'w github_Client \<Rightarrow> string \<Rightarrow> string \<Rightarrow> int \<Rightarrow> 'w \<Rightarrow> (PullRequest option \<times> err option) \<times> 'w" where
  "DefaultGitHubClient_GetPR client owner repo number w = PullRequests_Get client owner repo number w"

definition DefaultGitHubClient_FindExistingPR ::
  "'w github_Client \<Rightarrow> string \<Rightarrow> string \<Rightarrow> string \<Rightarrow> string \<Rightarrow> 'w \<Rightarrow>
     (PullRequest option \<times> err option) \<times> 'w" where
  "DefaultGitHubClient_FindExistingPR client owner repo head base w =
     (let opts = \<lparr>opt_State = ''all'', opt_Head = owner @ '':'' @ head, opt_Base = base, PerPage = 1\<rparr> in
      case PullRequests_List client owner repo opts w of ((prs, err), w') \<Rightarrow>
        if err \<noteq> None then ((None, err), w')
        else if length prs > 0 then ((prs ! 0, None), w')
        else ((None, None), w'))"

definition DefaultGitHubClient_CreatePR ::
  "'w github_Client \<Rightarrow> string \<Rightarrow> string \<Rightarrow> NewPullRequest \<Rightarrow> 'w \<Rightarrow>
     (PullRequest option \<times> err option) \<times> 'w" where
  "DefaultGitHubClient_CreatePR client owner repo pr w = PullRequests_Create client owner repo pr w"

definition NewDefaultGitHubClient :: "'w github_Client \<Rightarrow> 'w GitHubClient" where
  "NewDefaultGitHubClient client =
     \<lparr>GetPR = DefaultGitHubClient_GetPR client,
      FindExistingPR = DefaultGitHubClient_FindExistingPR client,
      CreatePR = DefaultGitHubClient_CreatePR client\<rparr>"

section \<open>Observing a trace\<close>

text \<open>What a trace shows: the replies of the three GitHub calls, the git commands with
  their replies, the arguments of the lookups, and the git commands alone, each in the
  order of the calls.\<close>

fun GetPR_replies :: "event list \<Rightarrow> (PullRequest option \<times> err option) list" where
  "GetPR_replies [] = []"
| "GetPR_replies (EvGetPR owner repo number r # tr) = r # GetPR_replies tr"
| "GetPR_replies (_ # tr) = GetPR_replies tr"

fun FindExistingPR_replies :: "event list \<Rightarrow> (PullRequest option \<times> err option) list" where
  "FindExistingPR_replies [] = []"
| "FindExistingPR_replies (EvFindExistingPR owner repo head base r # tr) = r # FindExistingPR_replies tr"
| "FindExistingPR_replies (_ # tr) = FindExistingPR_replies tr"

fun CreatePR_replies :: "event list \<Rightarrow> (PullRequest option \<times> err option) list" where
  "CreatePR_replies [] = []"
| "CreatePR_replies (EvCreatePR owner repo pr r # tr) = r # CreatePR_replies tr"
| "CreatePR_replies (_ # tr) = CreatePR_replies tr"

fun git_runs :: "event list \<Rightarrow> (string list \<times> err option) list" where
  "git_runs [] = []"
| "git_runs (EvRun args r # tr) = (args, r) # git_runs tr"
| "git_runs (_ # tr) = git_runs tr"

fun FindExistingPR_calls :: "event list \<Rightarrow> (string \<times> string \<times> string \<times> string) list" where
  "FindExistingPR_calls [] = []"
| "FindExistingPR_calls (EvFindExistingPR owner repo head base r # tr) =
     (owner, repo, head, base) # FindExistingPR_calls tr"
| "FindExistingPR_calls (_ # tr) = FindExistingPR_calls tr"

fun git_commands :: "event list \<Rightarrow> string list list" where
  "git_commands [] = []"
| "git_commands (EvRun args r # tr) = args # git_commands tr"
| "git_commands (_ # tr) = git_commands tr"

text \<open>The events of the warning that \<^verbatim>\<open>ProcessBranch\<close> logs when a call returns an error
  that it does not act on: none for a nil error.\<close>

fun warning_events :: "(err \<Rightarrow> string) \<Rightarrow> err option \<Rightarrow> event list" where
  "warning_events l None = []"
| "warning_events l (Some e) = [EvLog (l e)]"

section \<open>ProcessBranches\<close>

text \<open>
  \<^verbatim>\<open>ProcessBranches\<close> starts one goroutine per branch of \<^verbatim>\<open>cfg.Branches\<close>; goroutine
  \<open>index\<close> runs \<^verbatim>\<open>ProcessBranch\<close> for the branch at \<open>index\<close> and stores what it returns in
  \<^verbatim>\<open>results[index]\<close>; \<^verbatim>\<open>wg.Wait()\<close> returns once every goroutine is done.  The goroutines
  share the two ports, so what one of them gets from a port can depend on the calls the
  others made before.

  The model interleaves the goroutines at the calls of the ports.  \<open>step\<close> lets a program
  make its next call.  A goroutine is \<open>Running\<close> with the rest of its program, or \<open>Done\<close>
  once it has stored its result; its last step is that store.  A schedule is the list of
  the indices of the goroutines in the order in which they take their steps; an entry for
  a goroutine that is done, or for no goroutine, changes nothing.  A panic in one goroutine
  ends the process.  \<^verbatim>\<open>ProcessBranches\<close> returns \<open>None\<close> for a schedule that ends while
  a goroutine is still running: the real scheduler goes on, so such a schedule is only the
  beginning of a run.  The events of the trace carry the index of the goroutine.
\<close>

primrec step :: "'w Service \<Rightarrow> 'a prog \<Rightarrow> 'w \<Rightarrow> 'a prog \<times> 'w \<times> event list" where
  "step s (Return x) = (\<lambda>w. (Return x, w, []))"
| "step s Panic = (\<lambda>w. (Panic, w, []))"
| "step s (Log msg p) = (\<lambda>w. (p, w, [EvLog msg]))"
| "step s (Call_GetPR owner repo number k) = (\<lambda>w.
     case GetPR (github s) owner repo number w of (r, w1) \<Rightarrow> (k r, w1, [EvGetPR owner repo number r]))"
| "step s (Call_FindExistingPR owner repo head base k) = (\<lambda>w.
     case FindExistingPR (github s) owner repo head base w of (r, w1) \<Rightarrow>
       (k r, w1, [EvFindExistingPR owner repo head base r]))"
| "step s (Call_CreatePR owner repo pr k) = (\<lambda>w.
     case CreatePR (github s) owner repo pr w of (r, w1) \<Rightarrow> (k r, w1, [EvCreatePR owner repo pr r]))"
| "step s (Call_Run args k) = (\<lambda>w.
     case git s args w of (r, w1) \<Rightarrow> (k r, w1, [EvRun args r]))"

datatype 'a goroutine = Running "'a prog" | Done

fun goroutine_step ::
  "'w Service \<Rightarrow> nat \<Rightarrow> 'a goroutine list \<times> 'a option list \<times> 'w \<Rightarrow>
     ('a goroutine list \<times> 'a option list \<times> 'w) \<times> event list" where
  "goroutine_step s index (gs, results, w) =
     (case gs ! index of
        Done \<Rightarrow> ((gs, results, w), [])
      | Running p \<Rightarrow>
          (case p of
             Return r \<Rightarrow> ((gs[index := Done], results[index := Some r], w), [])
           | _ \<Rightarrow> (case step s p w of (p', w1, evs) \<Rightarrow> ((gs[index := Running p'], results, w1), evs))))"

fun panicked :: "'a goroutine \<Rightarrow> bool" where
  "panicked (Running Panic) = True"
| "panicked _ = False"

fun finished :: "'a goroutine \<Rightarrow> bool" where
  "finished Done = True"
| "finished _ = False"

fun run_goroutines ::
  "'w Service \<Rightarrow> nat list \<Rightarrow> 'a goroutine list \<times> 'a option list \<times> 'w \<Rightarrow>
     ('a goroutine list \<times> 'a option list \<times> 'w) \<times> (nat \<times> event) list" where
  "run_goroutines s [] st = (st, [])"
| "run_goroutines s (index # schedule) (gs, results, w) =
     (if list_ex panicked gs then ((gs, results, w), [])
      else if index < length gs then
        (case goroutine_step s index (gs, results, w) of (st1, evs) \<Rightarrow>
           (case run_goroutines s schedule st1 of (st2, tr) \<Rightarrow> (st2, map (Pair index) evs @ tr)))
      else run_goroutines s schedule (gs, results, w))"

definition ProcessBranches ::
  "'w Service \<Rightarrow> Config \<Rightarrow> nat list \<Rightarrow> 'w \<Rightarrow>
     Result option list outcome option \<times> 'w \<times> (nat \<times> event) list" where
  "ProcessBranches s cfg schedule w =
     (let results = replicate (length (Branches cfg)) None;
          gs = map (\<lambda>branch. Running (ProcessBranch cfg branch)) (Branches cfg)
      in case run_goroutines s schedule (gs, results, w) of ((gs', results', w'), tr) \<Rightarrow>
           (if list_ex panicked gs' then Some Panicked
            else if list_all finished gs' then Some (Returned results')
            else None,
            w', tr))"

text \<open>
  What one goroutine saw of a run: its own events.  \<open>residual p evs\<close> is what is left of the
  program \<open>p\<close> after it made the calls \<open>evs\<close> and got the replies recorded there (\<open>None\<close>
  when \<open>evs\<close> are not calls of \<open>p\<close>), and \<open>replay p evs\<close> is the outcome of \<open>p\<close> when \<open>evs\<close>
  takes it to its end.
\<close>

definition events_of :: "nat \<Rightarrow> (nat \<times> event) list \<Rightarrow> event list" where
  "events_of index tr = map snd (filter (\<lambda>(i, ev). i = index) tr)"

primrec residual :: "'a prog \<Rightarrow> event list \<Rightarrow> 'a prog option" where
  "residual (Return x) = (\<lambda>evs. if evs = [] then Some (Return x) else None)"
| "residual Panic = (\<lambda>evs. if evs = [] then Some Panic else None)"
| "residual (Log msg p) = (\<lambda>evs. case evs of
       [] \<Rightarrow> Some (Log msg p)
     | ev # rest \<Rightarrow> if ev = EvLog msg then residual p rest else None)"
| "residual (Call_GetPR owner repo number k) = (\<lambda>evs. case evs of
       [] \<Rightarrow> Some (Call_GetPR owner repo number k)
     | ev # rest \<Rightarrow> (case ev of
           EvGetPR owner' repo' number' r \<Rightarrow>
             if owner' = owner \<and> repo' = repo \<and> number' = number then residual (k r) rest else None
         | _ \<Rightarrow> None))"
| "residual (Call_FindExistingPR owner repo head base k) = (\<lambda>evs. case evs of
       [] \<Rightarrow> Some (Call_FindExistingPR owner repo head base k)
     | ev # rest \<Rightarrow> (case ev of
           EvFindExistingPR owner' repo' head' base' r \<Rightarrow>
             if owner' = owner \<and> repo' = repo \<and> head' = head \<and> base' = base
             then residual (k r) rest else None
         | _ \<Rightarrow> None))"
| "residual (Call_CreatePR owner repo pr k) = (\<lambda>evs. case evs of
       [] \<Rightarrow> Some (Call_CreatePR owner repo pr k)
     | ev # rest \<Rightarrow> (case ev of
           EvCreatePR owner' repo' pr' r \<Rightarrow>
             if owner' = owner \<and> repo' = repo \<and> pr' = pr then residual (k r) rest else None
         | _ \<Rightarrow> None))"
| "residual (Call_Run args k) = (\<lambda>evs. case evs of
       [] \<Rightarrow> Some (Call_Run args k)
     | ev # rest \<Rightarrow> (case ev of
           EvRun args' r \<Rightarrow> if args' = args then residual (k r) rest else None
         | _ \<Rightarrow> None))"

definition replay :: "'a prog \<Rightarrow> event list \<Rightarrow> 'a outcome option" where
  "replay p evs =
     (case residual p evs of
        Some (Return x) \<Rightarrow> Some (Returned x)
      | Some Panic \<Rightarrow> Some Panicked
      | _ \<Rightarrow> None)"

text \<open>
  A service is \<open>stateless\<close> when the reply of each port depends on the arguments of the call
  only, as the replies of the test doubles do.  An event is \<open>answered_by\<close> a service when
  its reply is one the service gives to that call in some state of the world.
\<close>

definition stateless :: "'w Service \<Rightarrow> bool" where
  "stateless s \<longleftrightarrow>
     (\<forall>owner repo number w w0.
        fst (GetPR (github s) owner repo number w) = fst (GetPR (github s) owner repo number w0)) \<and>
     (\<forall>owner repo head base w w0.
        fst (FindExistingPR (github s) owner repo head base w) =
        fst (FindExistingPR (github s) owner repo head base w0)) \<and>
     (\<forall>owner repo pr w w0.
        fst (CreatePR (github s) owner repo pr w) = fst (CreatePR (github s) owner repo pr w0)) \<and>
     (\<forall>args w w0. fst (git s args w) = fst (git s args w0))"

fun answered_by :: "'w Service \<Rightarrow> event \<Rightarrow> bool" where
  "answered_by s (EvLog msg) = True"
| "answered_by s (EvGetPR owner repo number r) =
     (\<exists>w. r = fst (GetPR (github s) owner repo number w))"
| "answered_by s (EvFindExistingPR owner repo head base r) =
     (\<exists>w. r = fst (FindExistingPR (github s) owner repo head base w))"
| "answered_by s (EvCreatePR owner repo pr r) =
     (\<exists>w. r = fst (CreatePR (github s) owner repo pr w))"
| "answered_by s (EvRun args r) = (\<exists>w. r = fst (git s args w))"

text \<open>
  For the proofs: \<open>terminates_in n p\<close> says that \<open>p\<close> returns after at most \<open>n\<close> calls,
  whatever the replies, unless \<^verbatim>\<open>GetPR\<close> replies with a nil pull request and a nil error;
  \<open>budget\<close> gives a goroutine one more step for the store; \<open>reaches\<close> relates the states of
  a goroutine and of its slot in \<^verbatim>\<open>results\<close> before and after the events between them;
  \<open>scripted\<close> is the service that replies with the replies of a given list of events,
  log lines left out.
\<close>

inductive terminates_in :: "nat \<Rightarrow> 'a prog \<Rightarrow> bool" where
  Return: "terminates_in n (Return x)"
| Log: "terminates_in n p \<Longrightarrow> terminates_in (Suc n) (Log msg p)"
| GetPR: "(\<And>r. r \<noteq> (None, None) \<Longrightarrow> terminates_in n (k r)) \<Longrightarrow>
    terminates_in (Suc n) (Call_GetPR owner repo number k)"
| FindExistingPR: "(\<And>r. terminates_in n (k r)) \<Longrightarrow>
    terminates_in (Suc n) (Call_FindExistingPR owner repo head base k)"
| CreatePR: "(\<And>r. terminates_in n (k r)) \<Longrightarrow> terminates_in (Suc n) (Call_CreatePR owner repo pr k)"
| Run: "(\<And>r. terminates_in n (k r)) \<Longrightarrow> terminates_in (Suc n) (Call_Run args k)"

fun budget :: "nat \<Rightarrow> 'a goroutine \<Rightarrow> bool" where
  "budget n Done = True"
| "budget n (Running p) = (0 < n \<and> terminates_in (n - 1) p)"

definition reaches ::
  "'a goroutine \<Rightarrow> 'a option \<Rightarrow> event list \<Rightarrow> 'a goroutine \<Rightarrow> 'a option \<Rightarrow> bool" where
  "reaches g r evs g' r' =
     (case g of
        Done \<Rightarrow> g' = Done \<and> evs = [] \<and> r' = r
      | Running p \<Rightarrow>
          (case g' of
             Running p' \<Rightarrow> residual p evs = Some p' \<and> r' = r
           | Done \<Rightarrow> (\<exists>x. residual p evs = Some (Return x) \<and> r' = Some x)))"

fun is_log :: "event \<Rightarrow> bool" where
  "is_log (EvLog msg) = True"
| "is_log _ = False"

definition scripted :: "event list Service" where
  "scripted =
     \<lparr>github =
        \<lparr>GetPR = (\<lambda>owner repo number w. case w of
             EvGetPR _ _ _ r # rest \<Rightarrow> (r, rest) | _ \<Rightarrow> ((None, None), w)),
         FindExistingPR = (\<lambda>owner repo head base w. case w of
             EvFindExistingPR _ _ _ _ r # rest \<Rightarrow> (r, rest) | _ \<Rightarrow> ((None, None), w)),
         CreatePR = (\<lambda>owner repo pr w. case w of
             EvCreatePR _ _ _ r # rest \<Rightarrow> (r, rest) | _ \<Rightarrow> ((None, None), w))\<rparr>,
      git = (\<lambda>args w. case w of EvRun _ r # rest \<Rightarrow> (r, rest) | _ \<Rightarrow> (None, w))\<rparr>"

section \<open>ValidateConfig\<close>

definition ValidateConfig :: "Config \<Rightarrow> err option" where
  "ValidateConfig cfg =
     (if PRNumber cfg = 0 then Some (Err ''PR number is required'')
      else if length (Branches cfg) = 0 then Some (Err ''at least one target branch is required'')
      else if RepoOwner cfg = [] \<or> RepoName cfg = []
        then Some (Err ''repository owner and name are required'')
      else None)"

section \<open>The exit status of the command line tool\<close>

text \<open>
  The last loop of \<^verbatim>\<open>run\<close> in \<^verbatim>\<open>cmd/cherry-pick/main.go\<close>: it walks the results in order
  and returns an error at the first one that failed and carries no existing pull request;
  \<^verbatim>\<open>main\<close> exits non-zero exactly when \<^verbatim>\<open>run\<close> returns an error.
\<close>

fun run_results :: "Result list \<Rightarrow> err option" where
  "run_results [] = None"
| "run_results (result # results) =
     (if \<not> Success result \<and> ExistingPR result = None
      then Some (Err (''cherry-pick to '' @ Branch result @ '' failed''))
      else run_results results)"

section \<open>Well-formed results\<close>

text \<open>
  The specification's notion of a well-formed \<^verbatim>\<open>Result\<close>: exactly one of \<^verbatim>\<open>ExistingPR\<close>,
  \<^verbatim>\<open>NewPR\<close> and \<^verbatim>\<open>Error\<close> is populated, and \<^verbatim>\<open>Success\<close> is true iff one of the two
  pull requests is.  \<open>populated\<close> counts the populated fields among the three.
\<close>

definition populated :: "Result \<Rightarrow> nat" where
  "populated r = (if ExistingPR r \<noteq> None then 1 else 0) + (if NewPR r \<noteq> None then 1 else 0) +
     (if Error r \<noteq> None then 1 else 0)"

definition well_formed :: "Result \<Rightarrow> bool" where
  "well_formed r \<longleftrightarrow> populated r = 1 \<and> (Success r \<longleftrightarrow> ExistingPR r \<noteq> None \<or> NewPR r \<noteq> None)"

section \<open>Test doubles\<close>

text \<open>
  The test doubles of \<^verbatim>\<open>cherrypick_test.go\<close>.  \<^verbatim>\<open>mockGitHubClient\<close> answers each call
  with the function it was built from; \<^verbatim>\<open>mockGitRunner\<close> appends the arguments of each
  call to its \<^verbatim>\<open>commands\<close>, which is the state of the world here, and answers with
  \<^verbatim>\<open>runFunc\<close>.
\<close>

definition mockGitHubClient ::
  "(string \<Rightarrow> string \<Rightarrow> int \<Rightarrow> PullRequest option \<times> err option) \<Rightarrow>
   (string \<Rightarrow> string \<Rightarrow> string \<Rightarrow> string \<Rightarrow> PullRequest option \<times> err option) \<Rightarrow>
   (string \<Rightarrow> string \<Rightarrow> NewPullRequest \<Rightarrow> PullRequest option \<times> err option) \<Rightarrow>
   'w GitHubClient" where
  "mockGitHubClient getPR findExistingPR createPR =
     \<lparr>GetPR = (\<lambda>owner repo number w. (getPR owner repo number, w)),
      FindExistingPR = (\<lambda>owner repo head base w. (findExistingPR owner repo head base, w)),
      CreatePR = (\<lambda>owner repo pr w. (createPR owner repo pr, w))\<rparr>"

definition mockGitRunner :: "(string list \<Rightarrow> err option) \<Rightarrow> string list list GitRunner" where
  "mockGitRunner runFunc = (\<lambda>args commands. (runFunc args, commands @ [args]))"

definition NewService :: "'w GitHubClient \<Rightarrow> 'w GitRunner \<Rightarrow> 'w Service" where
  "NewService gh g = \<lparr>github = gh, git = g\<rparr>"

text \<open>The values the tests use.\<close>

definition merged_pr :: PullRequest where
  "merged_pr = \<lparr>Number = None, State = None, Merged = Some True,
     MergeCommitSHA = Some ''abc123'', HTMLURL = None\<rparr>"

definition open_pr :: PullRequest where
  "open_pr = \<lparr>Number = None, State = Some ''open'', Merged = Some False,
     MergeCommitSHA = None, HTMLURL = None\<rparr>"

definition existing_pr :: PullRequest where
  "existing_pr = \<lparr>Number = Some 456, State = None, Merged = None, MergeCommitSHA = None,
     HTMLURL = Some ''https://github.com/owner/repo/pull/456''\<rparr>"

definition new_pr :: PullRequest where
  "new_pr = \<lparr>Number = Some 789, State = None, Merged = None, MergeCommitSHA = None,
     HTMLURL = Some ''https://github.com/owner/repo/pull/789''\<rparr>"

definition test_cfg :: Config where
  "test_cfg = \<lparr>PRNumber = 123, Branches = [], RepoOwner = ''owner'', RepoName = ''repo'',
     GitUserName = ''Test Bot'', GitUserEmail = ''bot@test.com''\<rparr>"

definition not_implemented :: "PullRequest option \<times> err option" where
  "not_implemented = (None, Some (Err ''not implemented''))"

text \<open>\<^verbatim>\<open>TestProcessBranch_PRNotMerged\<close>, \<^verbatim>\<open>TestProcessBranch_ExistingPR\<close>,
  \<^verbatim>\<open>TestProcessBranch_Success\<close> and \<^verbatim>\<open>TestProcessBranch_CherryPickFails\<close>.\<close>

definition not_merged_service :: "string list list Service" where
  "not_merged_service = NewService
     (mockGitHubClient (\<lambda>owner repo number. (Some open_pr, None))
        (\<lambda>owner repo head base. (None, None))
        (\<lambda>owner repo pr. not_implemented))
     (mockGitRunner (\<lambda>args. None))"

definition existing_service :: "string list list Service" where
  "existing_service = NewService
     (mockGitHubClient (\<lambda>owner repo number. (Some merged_pr, None))
        (\<lambda>owner repo head base. (Some existing_pr, None))
        (\<lambda>owner repo pr. not_implemented))
     (mockGitRunner (\<lambda>args. None))"

definition success_service :: "string list list Service" where
  "success_service = NewService
     (mockGitHubClient (\<lambda>owner repo number. (Some merged_pr, None))
        (\<lambda>owner repo head base. (None, None))
        (\<lambda>owner repo pr. (Some new_pr, None)))
     (mockGitRunner (\<lambda>args. None))"

definition conflict_service :: "string list list Service" where
  "conflict_service = NewService
     (mockGitHubClient (\<lambda>owner repo number. (Some merged_pr, None))
        (\<lambda>owner repo head base. (None, None))
        (\<lambda>owner repo pr. not_implemented))
     (mockGitRunner (\<lambda>args.
        if hd args = ''cherry-pick'' then Some (Err ''cherry-pick failed: conflicts'') else None))"

text \<open>A client whose lookup fails, as a transient failure of the hosting service would.\<close>

definition lookup_error_service :: "string list list Service" where
  "lookup_error_service = NewService
     (mockGitHubClient (\<lambda>owner repo number. (Some merged_pr, None))
        (\<lambda>owner repo head base. (None, Some (Err ''502 Bad Gateway'')))
        (\<lambda>owner repo pr. (Some new_pr, None)))
     (mockGitRunner (\<lambda>args. None))"

text \<open>A go-github client whose list call returns two pull requests for one head and base.\<close>

definition several_matches_client :: "string list list github_Client" where
  "several_matches_client =
     \<lparr>PullRequests_Get = (\<lambda>owner repo number w. ((Some merged_pr, None), w)),
      PullRequests_List = (\<lambda>owner repo opts w.
        ((if opt_Head opts = ''owner:cherry-pick-123-to-release'' \<and> opt_Base opts = ''release''
          then [Some existing_pr, Some new_pr] else [], None), w)),
      PullRequests_Create = (\<lambda>owner repo pr w. (not_implemented, w))\<rparr>"

definition several_matches_service :: "string list list Service" where
  "several_matches_service =
     NewService (NewDefaultGitHubClient several_matches_client) (mockGitRunner (\<lambda>args. None))"

text \<open>Two branches, after \<^verbatim>\<open>TestProcessBranches_Concurrent\<close> and
  \<^verbatim>\<open>TestProcessBranch_GitFetchFails\<close>: the fetch of the first branch fails; the goroutines
  take their steps in turn.\<close>

definition two_branches_cfg :: Config where
  "two_branches_cfg = \<lparr>PRNumber = 123, Branches = [''nonexistent'', ''release''],
     RepoOwner = ''owner'', RepoName = ''repo'',
     GitUserName = ''Test Bot'', GitUserEmail = ''bot@test.com''\<rparr>"

definition one_fetch_fails_service :: "string list list Service" where
  "one_fetch_fails_service = NewService
     (mockGitHubClient (\<lambda>owner repo number. (Some merged_pr, None))
        (\<lambda>owner repo head base. (None, None))
        (\<lambda>owner repo pr. (Some new_pr, None)))
     (mockGitRunner (\<lambda>args.
        if args = [''fetch'', ''origin'', ''nonexistent'']
        then Some (Err ''fetch failed: branch not found'') else None))"

definition alternating :: "nat list" where
  "alternating = [1, 0, 1, 0, 1, 0, 1, 0, 1, 0, 1, 0, 1, 0, 1, 0, 1, 0,
                  1, 0, 1, 0, 1, 0, 1, 0, 1, 0, 1, 0, 1, 0, 1, 0, 1, 0]"

definition nonexistent_result :: Result where
  "nonexistent_result =
     \<lparr>Branch = ''nonexistent'', Success = False, ExistingPR = None, NewPR = None,
      Error = Some (Err (''target branch '' @ [CHR 0x27] @ ''nonexistent'' @ [CHR 0x27] @
        '' does not exist or cannot be fetched: fetch failed: branch not found'')),
      ErrorMessage = ''target branch '' @ [CHR 0x27] @ ''nonexistent'' @ [CHR 0x27] @
        '' does not exist or cannot be fetched: fetch failed: branch not found''\<rparr>"

definition release_result :: Result where
  "release_result =
     \<lparr>Branch = ''release'', Success = True, ExistingPR = None, NewPR = Some new_pr,
      Error = None, ErrorMessage = []\<rparr>"

text \<open>
  A git runner over one working tree, as \<^verbatim>\<open>CommandGitRunner\<close> is when every goroutine
  runs git in the directory of the process: a cherry-pick that stops on a conflict leaves
  the tree in the middle of the cherry-pick until \<^verbatim>\<open>cherry-pick --abort\<close>, and git
  refuses to check out another branch meanwhile.  Here the cherry-pick onto the branch
  for \<^verbatim>\<open>conflicting\<close> is the one that conflicts.  The first goroutine runs up to its failed
  cherry-pick, then the second one runs to its end, then the first one goes on.
\<close>

record working_tree =
  HEAD :: string
  cherry_pick_in_progress :: bool

definition one_working_tree :: "working_tree GitRunner" where
  "one_working_tree = (\<lambda>args tree.
     if take 2 args = [''checkout'', ''-b''] then
       (if cherry_pick_in_progress tree
        then (Some (Err ''error: you need to resolve your current index first''), tree)
        else (None, tree\<lparr>HEAD := args ! 2\<rparr>))
     else if take 2 args = [''cherry-pick'', ''-m''] then
       (if HEAD tree = ''cherry-pick-123-to-conflicting''
        then (Some (Err ''error: could not apply abc123''), tree\<lparr>cherry_pick_in_progress := True\<rparr>)
        else (None, tree))
     else if args = [''cherry-pick'', ''--abort''] then
       (None, tree\<lparr>cherry_pick_in_progress := False\<rparr>)
     else (None, tree))"

definition one_working_tree_service :: "working_tree Service" where
  "one_working_tree_service = NewService
     (mockGitHubClient (\<lambda>owner repo number. (Some merged_pr, None))
        (\<lambda>owner repo head base. (None, None))
        (\<lambda>owner repo pr. (Some new_pr, None)))
     one_working_tree"

definition clean_tree :: working_tree where
  "clean_tree = \<lparr>HEAD = ''main'', cherry_pick_in_progress = False\<rparr>"

definition conflicting_cfg :: Config where
  "conflicting_cfg = \<lparr>PRNumber = 123, Branches = [''conflicting'', ''release''],
     RepoOwner = ''owner'', RepoName = ''repo'',
     GitUserName = ''Test Bot'', GitUserEmail = ''bot@test.com''\<rparr>"

definition stable_cfg :: Config where
  "stable_cfg = \<lparr>PRNumber = 123, Branches = [''stable'', ''release''],
     RepoOwner = ''owner'', RepoName = ''repo'',
     GitUserName = ''Test Bot'', GitUserEmail = ''bot@test.com''\<rparr>"

definition during_cherry_pick :: "nat list" where
  "during_cherry_pick = [0, 0, 0, 0, 0, 0, 0, 0, 0, 0, 0, 0,
                         1, 1, 1, 1, 1, 1, 1, 1, 1, 1, 1, 1, 1, 1, 1, 1, 1, 1,
                         0, 0, 0, 0, 0, 0]"

text \<open>A client that breaks the convention of Go: no pull request and no error.\<close>

definition nil_pull_request_service :: "string list list Service" where
  "nil_pull_request_service = NewService
     (mockGitHubClient (\<lambda>owner repo number. (None, None))
        (\<lambda>owner repo head base. (None, None))
        (\<lambda>owner repo pr. not_implemented))
     (mockGitRunner (\<lambda>args. None))"

section \<open>Symbolic execution\<close>

lemma GetPR_replies_append: "GetPR_replies (xs @ ys) = GetPR_replies xs @ GetPR_replies ys"
  by (induction xs rule: GetPR_replies.induct) auto

lemma FindExistingPR_replies_append:
  "FindExistingPR_replies (xs @ ys) = FindExistingPR_replies xs @ FindExistingPR_replies ys"
  by (induction xs rule: FindExistingPR_replies.induct) auto

lemma CreatePR_replies_append:
  "CreatePR_replies (xs @ ys) = CreatePR_replies xs @ CreatePR_replies ys"
  by (induction xs rule: CreatePR_replies.induct) auto

lemma git_runs_append: "git_runs (xs @ ys) = git_runs xs @ git_runs ys"
  by (induction xs rule: git_runs.induct) auto

lemma git_commands_append: "git_commands (xs @ ys) = git_commands xs @ git_commands ys"
  by (induction xs rule: git_commands.induct) auto

lemma exec_bind:
  "exec sv (bind p f) w =
     (case exec sv p w of
        (Returned x, w1, tr1) \<Rightarrow> (case exec sv (f x) w1 of (out, w2, tr2) \<Rightarrow> (out, w2, tr1 @ tr2))
      | (Panicked, w1, tr1) \<Rightarrow> (Panicked, w1, tr1))"
  by (induction p arbitrary: w) (auto split: prod.splits outcome.splits)


lemma exec_Return_eq:
  "(exec sv (Return x) w = (out, w', tr)) = (out = Returned x \<and> w' = w \<and> tr = [])"
  by auto

lemma exec_Panic_eq:
  "(exec sv Panic w = (out, w', tr)) = (out = Panicked \<and> w' = w \<and> tr = [])"
  by auto

lemma exec_Log_eq:
  "(exec sv (Log s p) w = (out, w', tr)) = (\<exists>tr1. tr = EvLog s # tr1 \<and> exec sv p w = (out, w', tr1))"
  by (auto split: prod.splits)

lemma exec_Call_GetPR_eq:
  "(exec sv (Call_GetPR ow rp n k) w = (out, w', tr)) =
     (\<exists>pr err w1 tr1. GetPR (github sv) ow rp n w = ((pr, err), w1) \<and>
        tr = EvGetPR ow rp n (pr, err) # tr1 \<and> exec sv (k (pr, err)) w1 = (out, w', tr1))"
  by (auto split: prod.splits)

lemma exec_Call_FindExistingPR_eq:
  "(exec sv (Call_FindExistingPR ow rp h b k) w = (out, w', tr)) =
     (\<exists>pr err w1 tr1. FindExistingPR (github sv) ow rp h b w = ((pr, err), w1) \<and>
        tr = EvFindExistingPR ow rp h b (pr, err) # tr1 \<and> exec sv (k (pr, err)) w1 = (out, w', tr1))"
  by (auto split: prod.splits)

lemma exec_Call_CreatePR_eq:
  "(exec sv (Call_CreatePR ow rp q k) w = (out, w', tr)) =
     (\<exists>pr err w1 tr1. CreatePR (github sv) ow rp q w = ((pr, err), w1) \<and>
        tr = EvCreatePR ow rp q (pr, err) # tr1 \<and> exec sv (k (pr, err)) w1 = (out, w', tr1))"
  by (auto split: prod.splits)

lemma exec_Call_Run_eq:
  "(exec sv (Call_Run args k) w = (out, w', tr)) =
     (\<exists>r w1 tr1. git sv args w = (r, w1) \<and> tr = EvRun args r # tr1 \<and>
        exec sv (k r) w1 = (out, w', tr1))"
  by (auto split: prod.splits)

lemma exec_bind_eq:
  "(exec sv (bind p f) w = (out, w', tr)) =
     ((out = Panicked \<and> exec sv p w = (Panicked, w', tr)) \<or>
      (\<exists>x w1 tr1 tr2. exec sv p w = (Returned x, w1, tr1) \<and> exec sv (f x) w1 = (out, w', tr2) \<and>
         tr = tr1 @ tr2))"
  by (auto simp: exec_bind split: prod.splits outcome.splits)

lemmas exec_eqs = exec_Return_eq exec_Panic_eq exec_Log_eq exec_Call_GetPR_eq
  exec_Call_FindExistingPR_eq exec_Call_CreatePR_eq exec_Call_Run_eq

lemma create_stage_cases:
  assumes "exec sv (Call_CreatePR ow rp q (\<lambda>(newPR, err). case err of
       Some e \<Rightarrow> Return (R5 e)
     | None \<Rightarrow> Log (l4 newPR) (Return (R6 newPR)))) w = (out, w', tr)"
  obtains
    (CreatePR_error) x e where "tr = [EvCreatePR ow rp q (x, Some e)]" "out = Returned (R5 e)"
  | (created) x where "tr = [EvCreatePR ow rp q (x, None), EvLog (l4 x)]" "out = Returned (R6 x)"
proof -
  from assms obtain x err w1 tr1 where tr: "tr = EvCreatePR ow rp q (x, err) # tr1"
    and k: "exec sv (case err of Some e \<Rightarrow> Return (R5 e)
                   | None \<Rightarrow> Log (l4 x) (Return (R6 x))) w1 = (out, w', tr1)"
    by (auto simp: exec_Call_CreatePR_eq simp del: exec.simps)
  show thesis
  proof (cases err)
    case None
    with tr k show thesis by (auto simp: exec_eqs simp del: exec.simps intro: created)
  next
    case (Some e)
    with tr k show thesis by (auto simp: exec_eqs simp del: exec.simps intro: CreatePR_error)
  qed
qed

lemma git_stage_cases:
  assumes "exec sv (bind G (\<lambda>err. case err of Some e \<Rightarrow> Return (R4 e) | None \<Rightarrow> K)) w = (out, w', tr)"
  obtains
    (git_panic) "exec sv G w = (Panicked, w', tr)" "out = Panicked"
  | (git_error) e where "exec sv G w = (Returned (Some e), w', tr)" "out = Returned (R4 e)"
  | (git_ok) w3 gtr tr2 where "exec sv G w = (Returned None, w3, gtr)"
      "exec sv K w3 = (out, w', tr2)" "tr = gtr @ tr2"
proof -
  from assms consider "out = Panicked" "exec sv G w = (Panicked, w', tr)"
    | x w1 tr1 tr2 where "exec sv G w = (Returned x, w1, tr1)"
        "exec sv (case x of Some e \<Rightarrow> Return (R4 e) | None \<Rightarrow> K) w1 = (out, w', tr2)"
        "tr = tr1 @ tr2"
    unfolding exec_bind_eq by blast
  then show thesis
  proof cases
    case 1
    then show thesis by (intro git_panic)
  next
    case (2 x w1 tr1 tr2)
    show thesis
    proof (cases x)
      case None
      with 2 show thesis by (auto intro: git_ok)
    next
      case (Some e)
      with 2 show thesis by (auto simp: exec_eqs simp del: exec.simps intro: git_error)
    qed
  qed
qed

lemma find_stage_cases:
  assumes "exec sv (Call_FindExistingPR ow rp h b (\<lambda>(existingPR, err).
     (case err of Some e \<Rightarrow> Log (l2 e) | None \<Rightarrow> (\<lambda>rest. rest)) (
     if existingPR \<noteq> None then Log (l3 existingPR) (Return (R3 existingPR))
     else K))) w = (out, w', tr)"
  obtains
    (existing) x ferr where
      "tr = EvFindExistingPR ow rp h b (Some x, ferr) # warning_events l2 ferr @ [EvLog (l3 (Some x))]"
      "out = Returned (R3 (Some x))"
  | (no_existing) ferr w2 tr2 where
      "tr = EvFindExistingPR ow rp h b (None, ferr) # warning_events l2 ferr @ tr2"
      "exec sv K w2 = (out, w', tr2)"
proof -
  from assms obtain x ferr w1 tr1 where tr: "tr = EvFindExistingPR ow rp h b (x, ferr) # tr1"
    and k: "exec sv ((case ferr of Some e \<Rightarrow> Log (l2 e) | None \<Rightarrow> (\<lambda>rest. rest))
             (if x \<noteq> None then Log (l3 x) (Return (R3 x)) else K)) w1 = (out, w', tr1)"
    by (auto simp: exec_Call_FindExistingPR_eq simp del: exec.simps)
  from k obtain tr2 where tr1: "tr1 = warning_events l2 ferr @ tr2"
    and k2: "exec sv (if x \<noteq> None then Log (l3 x) (Return (R3 x)) else K) w1 = (out, w', tr2)"
    by (cases ferr) (auto simp: exec_eqs simp del: exec.simps)
  show thesis
  proof (cases x)
    case None
    with tr tr1 k2 show thesis by (auto intro: no_existing)
  next
    case (Some y)
    with tr tr1 k2 show thesis by (auto simp: exec_eqs simp del: exec.simps intro: existing)
  qed
qed

lemma get_stage_cases:
  assumes "exec sv (Log l0 (Call_GetPR ow rp n (\<lambda>(pr, err). case err of
       Some e \<Rightarrow> Return (R1 e)
     | None \<Rightarrow>
     (case pr of
       None \<Rightarrow> Panic
     | Some p \<Rightarrow> if C p then Return (R2 pr) else K pr)))) w = (out, w', tr)"
  obtains
    (GetPR_error) pr e where
      "tr = [EvLog l0, EvGetPR ow rp n (pr, Some e)]" "out = Returned (R1 e)"
  | (GetPR_nil) "tr = [EvLog l0, EvGetPR ow rp n (None, None)]" "out = Panicked"
  | (not_merged) p where "C p"
      "tr = [EvLog l0, EvGetPR ow rp n (Some p, None)]" "out = Returned (R2 (Some p))"
  | (merged) p w1 tr1 where "\<not> C p"
      "tr = EvLog l0 # EvGetPR ow rp n (Some p, None) # tr1"
      "exec sv (K (Some p)) w1 = (out, w', tr1)"
proof -
  from assms obtain pr err w1 tr1 where tr: "tr = EvLog l0 # EvGetPR ow rp n (pr, err) # tr1"
    and k: "exec sv (case err of Some e \<Rightarrow> Return (R1 e)
              | None \<Rightarrow> (case pr of None \<Rightarrow> Panic
                  | Some p \<Rightarrow> if C p then Return (R2 pr) else K pr)) w1 = (out, w', tr1)"
    by (auto simp: exec_Log_eq exec_Call_GetPR_eq simp del: exec.simps)
  show thesis
  proof (cases err)
    case (Some e)
    with tr k show thesis by (auto simp: exec_eqs simp del: exec.simps intro: GetPR_error)
  next
    case None
    note err = this
    show thesis
    proof (cases pr)
      case None
      with err tr k show thesis by (auto simp: exec_eqs simp del: exec.simps intro: GetPR_nil)
    next
      case (Some p)
      with err tr k show thesis
        by (cases "C p") (auto simp: exec_eqs simp del: exec.simps intro: not_merged merged)
    qed
  qed
qed

lemma git_chain_cases:
  assumes "exec sv
    (Call_Run a1 (\<lambda>err. case err of
       Some e \<Rightarrow> Return (Some (f1 e))
     | None \<Rightarrow>
     Call_Run a2 (\<lambda>err. case err of
       Some e \<Rightarrow> Return (Some (f2 e))
     | None \<Rightarrow>
     Log l3 (
     Call_Run a3 (\<lambda>err. case err of
       Some e \<Rightarrow> Return (Some (f3 e))
     | None \<Rightarrow>
     Log l4 (
     Call_Run a4 (\<lambda>err. case err of
       Some e \<Rightarrow> Return (Some (f4 e))
     | None \<Rightarrow>
     Log l5 (
     Call_Run a5 (\<lambda>err. case err of
       Some e \<Rightarrow>
         Call_Run ab (\<lambda>_.
         Return (Some (f5 e)))
     | None \<Rightarrow>
     Log l6 (
     Call_Run a6 (\<lambda>err. case err of
       Some e \<Rightarrow> Return (Some (f6 e))
     | None \<Rightarrow> Return None))))))))))) w = (out, w', tr)"
  obtains
    (fail1) e where "tr = [EvRun a1 (Some e)]" "out = Returned (Some (f1 e))"
  | (fail2) e where "tr = [EvRun a1 None, EvRun a2 (Some e)]" "out = Returned (Some (f2 e))"
  | (fail3) e where "tr = [EvRun a1 None, EvRun a2 None, EvLog l3, EvRun a3 (Some e)]"
      "out = Returned (Some (f3 e))"
  | (fail4) e where
      "tr = [EvRun a1 None, EvRun a2 None, EvLog l3, EvRun a3 None, EvLog l4, EvRun a4 (Some e)]"
      "out = Returned (Some (f4 e))"
  | (fail5) e a where
      "tr = [EvRun a1 None, EvRun a2 None, EvLog l3, EvRun a3 None, EvLog l4, EvRun a4 None,
             EvLog l5, EvRun a5 (Some e), EvRun ab a]"
      "out = Returned (Some (f5 e))"
  | (fail6) e where
      "tr = [EvRun a1 None, EvRun a2 None, EvLog l3, EvRun a3 None, EvLog l4, EvRun a4 None,
             EvLog l5, EvRun a5 None, EvLog l6, EvRun a6 (Some e)]"
      "out = Returned (Some (f6 e))"
  | (all_ok)
      "tr = [EvRun a1 None, EvRun a2 None, EvLog l3, EvRun a3 None, EvLog l4, EvRun a4 None,
             EvLog l5, EvRun a5 None, EvLog l6, EvRun a6 None]"
      "out = Returned None"
  using assms
  by (auto simp: exec_eqs simp del: exec.simps split: option.splits)

lemma performGitOperations_cases:
  assumes "exec sv (performGitOperations cfg t c m) w = (out, w', tr)"
  obtains
    (config_name_fails) e where
      "tr = [EvRun [''config'', ''user.name'', GitUserName cfg] (Some e)]"
      "out = Returned (Some (Errorf_w ''failed to configure git user name: '' e))"
  | (config_email_fails) e where
      "tr = [EvRun [''config'', ''user.name'', GitUserName cfg] None,
             EvRun [''config'', ''user.email'', GitUserEmail cfg] (Some e)]"
      "out = Returned (Some (Errorf_w ''failed to configure git user email: '' e))"
  | (fetch_fails) e where
      "tr = [EvRun [''config'', ''user.name'', GitUserName cfg] None,
             EvRun [''config'', ''user.email'', GitUserEmail cfg] None,
             EvLog (''Fetching target branch: '' @ t @ ''...''),
             EvRun [''fetch'', ''origin'', t] (Some e)]"
      "out = Returned (Some (Errorf_w (''target branch '' @ [CHR 0x27] @ t @ [CHR 0x27] @
          '' does not exist or cannot be fetched: '') e))"
  | (checkout_fails) e where
      "tr = [EvRun [''config'', ''user.name'', GitUserName cfg] None,
             EvRun [''config'', ''user.email'', GitUserEmail cfg] None,
             EvLog (''Fetching target branch: '' @ t @ ''...''),
             EvRun [''fetch'', ''origin'', t] None,
             EvLog (''Creating cherry-pick branch: '' @ c @ ''...''),
             EvRun [''checkout'', ''-b'', c, ''origin/'' @ t] (Some e)]"
      "out = Returned (Some (Errorf_w ''failed to create cherry-pick branch: '' e))"
  | (cherry_pick_fails) e a where
      "tr = [EvRun [''config'', ''user.name'', GitUserName cfg] None,
             EvRun [''config'', ''user.email'', GitUserEmail cfg] None,
             EvLog (''Fetching target branch: '' @ t @ ''...''),
             EvRun [''fetch'', ''origin'', t] None,
             EvLog (''Creating cherry-pick branch: '' @ c @ ''...''),
             EvRun [''checkout'', ''-b'', c, ''origin/'' @ t] None,
             EvLog (''Cherry-picking commit '' @ m @ ''...''),
             EvRun [''cherry-pick'', ''-m'', ''1'', m] (Some e),
             EvRun [''cherry-pick'', ''--abort''] a]"
      "out = Returned (Some (Errorf_w ''cherry-pick failed due to conflicts or other errors: '' e))"
  | (push_fails) e where
      "tr = [EvRun [''config'', ''user.name'', GitUserName cfg] None,
             EvRun [''config'', ''user.email'', GitUserEmail cfg] None,
             EvLog (''Fetching target branch: '' @ t @ ''...''),
             EvRun [''fetch'', ''origin'', t] None,
             EvLog (''Creating cherry-pick branch: '' @ c @ ''...''),
             EvRun [''checkout'', ''-b'', c, ''origin/'' @ t] None,
             EvLog (''Cherry-picking commit '' @ m @ ''...''),
             EvRun [''cherry-pick'', ''-m'', ''1'', m] None,
             EvLog ''Pushing cherry-pick branch...'',
             EvRun [''push'', ''origin'', c] (Some e)]"
      "out = Returned (Some (Errorf_w ''failed to push cherry-pick branch: '' e))"
  | (all_ok)
      "tr = [EvRun [''config'', ''user.name'', GitUserName cfg] None,
             EvRun [''config'', ''user.email'', GitUserEmail cfg] None,
             EvLog (''Fetching target branch: '' @ t @ ''...''),
             EvRun [''fetch'', ''origin'', t] None,
             EvLog (''Creating cherry-pick branch: '' @ c @ ''...''),
             EvRun [''checkout'', ''-b'', c, ''origin/'' @ t] None,
             EvLog (''Cherry-picking commit '' @ m @ ''...''),
             EvRun [''cherry-pick'', ''-m'', ''1'', m] None,
             EvLog ''Pushing cherry-pick branch...'',
             EvRun [''push'', ''origin'', c] None]"
      "out = Returned None"
  using assms unfolding performGitOperations_def
  by (rule git_chain_cases) (rule that, assumption, assumption)+

lemma performGitOperations_returns:
  assumes "exec sv (performGitOperations cfg t c m) w = (out, w', tr)"
  shows "out \<noteq> Panicked"
  using assms by (cases rule: performGitOperations_cases) simp_all

lemma ProcessBranch_cases:
  fixes cfg :: Config and b :: string
  defines "started \<equiv> EvLog ([CHR 0xF0, CHR 0x9F, CHR 0xA4, CHR 0x96] @
      '' Starting cherry-pick to '' @ b @ ''...'')"
    and "got r \<equiv> EvGetPR (RepoOwner cfg) (RepoName cfg) (PRNumber cfg) r"
    and "found p \<equiv> EvLog (''Found merge commit: '' @ GetMergeCommitSHA (Some p))"
    and "looked r \<equiv>
      EvFindExistingPR (RepoOwner cfg) (RepoName cfg) (cherryPickBranch cfg b) b r"
    and "warned \<equiv>
      warning_events (\<lambda>e. ''Warning: error checking for existing PR: '' @ Error_text e)"
    and "gitops p \<equiv> performGitOperations cfg b (cherryPickBranch cfg b) (GetMergeCommitSHA (Some p))"
    and "asked r \<equiv> EvCreatePR (RepoOwner cfg) (RepoName cfg)
       \<lparr>Title = Some (''Cherry-pick #'' @ show_int (PRNumber cfg) @ '' to '' @ b),
        Head = Some (cherryPickBranch cfg b), Base = Some b,
        Body = Some (''Automatic cherry-pick of #'' @ show_int (PRNumber cfg) @ '' to `'' @ b @ ''`'')\<rparr> r"
  assumes "exec sv (ProcessBranch cfg b) w = (out, w', tr)"
  obtains
    (GetPR_error) pr e where
      "tr = [started, got (pr, Some e)]"
      "out = Returned \<lparr>Branch = b, Success = False, ExistingPR = None, NewPR = None,
         Error = Some e,
         ErrorMessage = ''Failed to fetch PR #'' @ show_int (PRNumber cfg) @ '': '' @ Error_text e\<rparr>"
  | (GetPR_nil) "tr = [started, got (None, None)]" "out = Panicked"
  | (not_merged) p where "Merged p \<noteq> Some True"
      "tr = [started, got (Some p, None)]"
      "out = Returned \<lparr>Branch = b, Success = False, ExistingPR = None, NewPR = None,
         Error = None,
         ErrorMessage = ''PR #'' @ show_int (PRNumber cfg) @ '' is not merged yet (state: '' @
           GetState (Some p) @ ''). Cherry-pick requires merged PRs.''\<rparr>"
  | (existing) p x ferr where "Merged p = Some True"
      "tr = [started, got (Some p, None), found p, looked (Some x, ferr)] @ warned ferr @
            [EvLog ([CHR 0xE2, CHR 0x84, CHR 0xB9, CHR 0xEF, CHR 0xB8, CHR 0x8F] @
               ''  Cherry-pick PR already exists: #'' @ show_int (GetNumber (Some x)))]"
      "out = Returned \<lparr>Branch = b, Success = True, ExistingPR = Some x, NewPR = None,
         Error = None, ErrorMessage = []\<rparr>"
  | (git_error) p ferr w2 gtr e where "Merged p = Some True"
      "exec sv (gitops p) w2 = (Returned (Some e), w', gtr)"
      "tr = [started, got (Some p, None), found p, looked (None, ferr)] @ warned ferr @ gtr"
      "out = Returned \<lparr>Branch = b, Success = False, ExistingPR = None, NewPR = None,
         Error = Some e, ErrorMessage = Error_text e\<rparr>"
  | (CreatePR_error) p ferr w2 w3 gtr x e where "Merged p = Some True"
      "exec sv (gitops p) w2 = (Returned None, w3, gtr)"
      "tr = [started, got (Some p, None), found p, looked (None, ferr)] @ warned ferr @ gtr @
            [asked (x, Some e)]"
      "out = Returned \<lparr>Branch = b, Success = False, ExistingPR = None, NewPR = None,
         Error = Some e, ErrorMessage = ''Failed to create pull request: '' @ Error_text e\<rparr>"
  | (created) p ferr w2 w3 gtr x where "Merged p = Some True"
      "exec sv (gitops p) w2 = (Returned None, w3, gtr)"
      "tr = [started, got (Some p, None), found p, looked (None, ferr)] @ warned ferr @ gtr @
            [asked (x, None),
             EvLog ([CHR 0xE2, CHR 0x9C, CHR 0x85] @ '' Cherry-pick completed successfully! PR #'' @
               show_int (GetNumber x) @ '' created'')]"
      "out = Returned \<lparr>Branch = b, Success = True, ExistingPR = None, NewPR = x,
         Error = None, ErrorMessage = []\<rparr>"
proof -
  note run = assms(8)[unfolded ProcessBranch_def Let_def]
  have nm: "(Merged p \<noteq> Some True) = (Merged p = None \<or> Merged p = Some False)"
    for p :: PullRequest
    by (cases "Merged p") auto
  from run show thesis
  proof (cases rule: get_stage_cases)
    case (GetPR_error pr e)
    then show thesis by (intro that(1)[of pr e]) (simp_all add: started_def got_def)
  next
    case GetPR_nil
    then show thesis by (intro that(2)) (simp_all add: started_def got_def)
  next
    case (not_merged p)
    then show thesis by (intro that(3)[of p]) (simp_all add: started_def got_def nm)
  next
    case (merged p w1 tr1)
    from merged(1) have m: "Merged p = Some True" by (cases "Merged p") auto
    from merged(3) obtain tr2 where tr1: "tr1 = found p # tr2" and
      find: "exec sv (Call_FindExistingPR (RepoOwner cfg) (RepoName cfg) (cherryPickBranch cfg b) b
        (\<lambda>(existingPR, err).
     (case err of
       Some e \<Rightarrow> Log (''Warning: error checking for existing PR: '' @ Error_text e)
     | None \<Rightarrow> (\<lambda>rest. rest)) (
     if existingPR \<noteq> None then
       Log ([CHR 0xE2, CHR 0x84, CHR 0xB9, CHR 0xEF, CHR 0xB8, CHR 0x8F] @
            ''  Cherry-pick PR already exists: #'' @ show_int (GetNumber existingPR)) (
       Return (\<lparr>Branch = b, Success = False, ExistingPR = None, NewPR = None,
                    Error = None, ErrorMessage = []\<rparr>\<lparr>Success := True, ExistingPR := existingPR\<rparr>))
     else
     bind (gitops p)
       (\<lambda>err. case err of
       Some e \<Rightarrow> Return (\<lparr>Branch = b, Success = False, ExistingPR = None, NewPR = None,
                    Error = None, ErrorMessage = []\<rparr>\<lparr>Error := Some e, ErrorMessage := Error_text e\<rparr>)
     | None \<Rightarrow>
     Call_CreatePR (RepoOwner cfg) (RepoName cfg)
       \<lparr>Title = Some (''Cherry-pick #'' @ show_int (PRNumber cfg) @ '' to '' @ b),
        Head = Some (cherryPickBranch cfg b),
        Base = Some b, Body = Some (''Automatic cherry-pick of #'' @ show_int (PRNumber cfg) @ '' to `'' @ b @ ''`'')\<rparr>
        (\<lambda>(newPR, err). case err of
       Some e \<Rightarrow>
         Return (\<lparr>Branch = b, Success = False, ExistingPR = None, NewPR = None,
                    Error = None, ErrorMessage = []\<rparr>\<lparr>Error := Some e,
           ErrorMessage := ''Failed to create pull request: '' @ Error_text e\<rparr>)
     | None \<Rightarrow>
     Log ([CHR 0xE2, CHR 0x9C, CHR 0x85] @ '' Cherry-pick completed successfully! PR #'' @
          show_int (GetNumber newPR) @ '' created'') (
     Return (\<lparr>Branch = b, Success = False, ExistingPR = None, NewPR = None,
                    Error = None, ErrorMessage = []\<rparr>\<lparr>Success := True, NewPR := newPR\<rparr>))))))) w1 = (out, w', tr2)"
      unfolding exec_Log_eq found_def gitops_def by blast
    from find show thesis
    proof (cases rule: find_stage_cases)
      case (existing x ferr)
      with m merged(2) tr1 show thesis
        by (intro that(4)[of p x ferr]) (simp_all add: started_def got_def looked_def warned_def)
    next
      case (no_existing ferr w2 tr3)
      from no_existing(2) show thesis
      proof (cases rule: git_stage_cases)
        case git_panic
        from git_panic(1)[unfolded gitops_def] have "Panicked \<noteq> (Panicked :: err option outcome)"
          by (rule performGitOperations_returns)
        then show thesis by simp
      next
        case (git_error e)
        with m merged(2) tr1 no_existing(1) show thesis
          by (intro that(5)[of p w2 e tr3 ferr])
            (simp_all add: started_def got_def looked_def warned_def)
      next
        case (git_ok w3 gtr tr4)
        from git_ok(2) show thesis
        proof (cases rule: create_stage_cases)
          case (CreatePR_error x e)
          with m merged(2) tr1 no_existing(1) git_ok(1,3) show thesis
            by (intro that(6)[of p w2 w3 gtr ferr x e])
              (simp_all add: started_def got_def looked_def warned_def asked_def)
        next
          case (created x)
          with m merged(2) tr1 no_existing(1) git_ok(1,3) show thesis
            by (intro that(7)[of p w2 w3 gtr ferr x])
              (simp_all add: started_def got_def looked_def warned_def asked_def)
        qed
      qed
    qed
  qed
qed

lemma observers_warning_events:
  "GetPR_replies (warning_events l x) = []"
  "FindExistingPR_replies (warning_events l x) = []"
  "CreatePR_replies (warning_events l x) = []"
  "git_runs (warning_events l x) = []"
  "git_commands (warning_events l x) = []"
  by (cases x; simp)+

lemmas observers_append = GetPR_replies_append FindExistingPR_replies_append
  CreatePR_replies_append git_runs_append git_commands_append

lemma git_commands_git_runs: "git_commands tr = map fst (git_runs tr)"
  by (induction tr rule: git_runs.induct) auto

lemma performGitOperations_no_github:
  assumes "exec sv (performGitOperations cfg t c m) w = (out, w', gtr)"
  shows "GetPR_replies gtr = [] \<and> FindExistingPR_replies gtr = [] \<and> CreatePR_replies gtr = []"
  using assms by (cases rule: performGitOperations_cases) simp_all

lemma performGitOperations_error:
  assumes "exec sv (performGitOperations cfg t c m) w = (Returned (Some e), w', gtr)"
  shows "\<exists>args e'. (args, Some e') \<in> set (git_runs gtr)"
  using assms by (cases rule: performGitOperations_cases) auto

lemma performGitOperations_first:
  assumes "exec sv (performGitOperations cfg t c m) w = (out, w', gtr)"
  shows "\<exists>r rest. gtr = EvRun [''config'', ''user.name'', GitUserName cfg] r # rest"
  using assms by (cases rule: performGitOperations_cases) auto

lemma FindExistingPR_calls_append:
  "FindExistingPR_calls (xs @ ys) = FindExistingPR_calls xs @ FindExistingPR_calls ys"
  by (induction xs rule: FindExistingPR_calls.induct) auto

lemma FindExistingPR_calls_warning_events: "FindExistingPR_calls (warning_events l x) = []"
  by (cases x) simp_all

lemma performGitOperations_no_lookup:
  assumes "exec sv (performGitOperations cfg t c m) w = (out, w', gtr)"
  shows "FindExistingPR_calls gtr = []"
  using assms by (cases rule: performGitOperations_cases) simp_all

lemma lookup_stage:
  assumes "exec sv (Log l0 (Call_GetPR ow rp n (\<lambda>(pr, err). case err of
       Some e \<Rightarrow> K1 e
     | None \<Rightarrow>
     (case pr of
       None \<Rightarrow> Panic
     | Some p \<Rightarrow> if C p then K2 pr
         else Log (l1 pr) (Call_FindExistingPR ow rp h b (K3 pr)))))) w = (out, w', tr)"
    and "tr = EvLog l0 # EvGetPR ow rp n (Some p, None) # rest" and "\<not> C p"
  shows "\<exists>rest'. rest = EvLog (l1 (Some p)) #
     EvFindExistingPR ow rp h b
       (fst (FindExistingPR (github sv) ow rp h b (snd (GetPR (github sv) ow rp n w)))) # rest'"
  using assms
  by (auto simp: exec_eqs simp del: exec.simps)

lemma ProcessBranch_reaches_lookup:
  assumes run: "exec sv (ProcessBranch cfg targetBranch) w = (out, w', tr)"
    and merged: "\<forall>r \<in> set (GetPR_replies tr). \<exists>pr. r = (Some pr, None) \<and> Merged pr = Some True"
  shows "\<exists>p reply rest. Merged p = Some True \<and>
     tr = EvLog ([CHR 0xF0, CHR 0x9F, CHR 0xA4, CHR 0x96] @
            '' Starting cherry-pick to '' @ targetBranch @ ''...'') #
          EvGetPR (RepoOwner cfg) (RepoName cfg) (PRNumber cfg) (Some p, None) # rest \<and>
     FindExistingPR_calls tr =
       [(RepoOwner cfg, RepoName cfg, cherryPickBranch cfg targetBranch, targetBranch)] \<and>
     FindExistingPR_replies tr = [reply] \<and> out \<noteq> Panicked"
  using run
proof (cases rule: ProcessBranch_cases)
  case (existing p x ferr)
  then show ?thesis
    by (intro exI[of _ p] exI[of _ "(Some x, ferr)"])
      (simp add: observers_append observers_warning_events FindExistingPR_calls_append
        FindExistingPR_calls_warning_events)
next
  case (git_error p ferr w2 gtr e)
  with performGitOperations_no_github[OF git_error(2)] performGitOperations_no_lookup[OF git_error(2)]
  show ?thesis
    by (intro exI[of _ p] exI[of _ "(None, ferr)"])
      (simp add: observers_append observers_warning_events FindExistingPR_calls_append
        FindExistingPR_calls_warning_events)
next
  case (CreatePR_error p ferr w2 w3 gtr x e)
  with performGitOperations_no_github[OF CreatePR_error(2)]
    performGitOperations_no_lookup[OF CreatePR_error(2)]
  show ?thesis
    by (intro exI[of _ p] exI[of _ "(None, ferr)"])
      (simp add: observers_append observers_warning_events FindExistingPR_calls_append
        FindExistingPR_calls_warning_events)
next
  case (created p ferr w2 w3 gtr x)
  with performGitOperations_no_github[OF created(2)]
    performGitOperations_no_lookup[OF created(2)]
  show ?thesis
    by (intro exI[of _ p] exI[of _ "(None, ferr)"])
      (simp add: observers_append observers_warning_events FindExistingPR_calls_append
        FindExistingPR_calls_warning_events)
qed (use merged in auto)

lemma cherryPickBranch_inj:
  "(cherryPickBranch cfg other = cherryPickBranch cfg targetBranch) = (other = targetBranch)"
  unfolding cherryPickBranch_def by (simp only: same_append_eq)

section \<open>The goroutines\<close>

lemma panicked_iff [simp]: "panicked g = (g = Running Panic)"
  by (cases g rule: panicked.cases) simp_all

lemma finished_iff [simp]: "finished g = (g = Done)"
  by (cases g) simp_all

lemma list_ex_panicked [simp]: "list_ex panicked gs = (Running Panic \<in> set gs)"
  by (simp add: list_ex_iff)

lemma residual_Nil [simp]: "residual p [] = Some p"
  by (cases p) simp_all

lemma residual_append:
  "residual p (evs1 @ evs2) = (case residual p evs1 of None \<Rightarrow> None | Some p' \<Rightarrow> residual p' evs2)"
  by (induction p arbitrary: evs1) (auto split: list.splits event.splits)

lemma exec_residual:
  "exec s p w = (out, w', tr) \<Longrightarrow>
     residual p tr = Some (case out of Returned x \<Rightarrow> Return x | Panicked \<Rightarrow> Panic)"
  by (induction p arbitrary: w out w' tr) (auto split: prod.splits)

lemma exec_replay: "exec s p w = (out, w', tr) \<Longrightarrow> replay p tr = Some out"
  by (drule exec_residual) (simp add: replay_def split: outcome.splits)

inductive_cases terminates_in_PanicE: "terminates_in n Panic"

lemma terminates_in_mono: "terminates_in n p \<Longrightarrow> n \<le> m \<Longrightarrow> terminates_in m p"
proof (induction arbitrary: m rule: terminates_in.induct)
  case (Return n x)
  show ?case by (rule terminates_in.Return)
next
  case (Log n p msg)
  from Log.prems obtain m' where m: "m = Suc m'" "n \<le> m'" by (cases m) auto
  show ?case unfolding m(1) by (rule terminates_in.Log) (rule Log.IH[OF m(2)])
next
  case (GetPR n k owner repo number)
  from GetPR.prems obtain m' where m: "m = Suc m'" "n \<le> m'" by (cases m) auto
  show ?case unfolding m(1) by (rule terminates_in.GetPR) (rule GetPR.IH[OF _ m(2)])
next
  case (FindExistingPR n k owner repo head base)
  from FindExistingPR.prems obtain m' where m: "m = Suc m'" "n \<le> m'" by (cases m) auto
  show ?case unfolding m(1) by (rule terminates_in.FindExistingPR) (rule FindExistingPR.IH[OF m(2)])
next
  case (CreatePR n k owner repo pr)
  from CreatePR.prems obtain m' where m: "m = Suc m'" "n \<le> m'" by (cases m) auto
  show ?case unfolding m(1) by (rule terminates_in.CreatePR) (rule CreatePR.IH[OF m(2)])
next
  case (Run n k args)
  from Run.prems obtain m' where m: "m = Suc m'" "n \<le> m'" by (cases m) auto
  show ?case unfolding m(1) by (rule terminates_in.Run) (rule Run.IH[OF m(2)])
qed

lemma terminates_in_bind:
  assumes "terminates_in n p" and "\<And>x. terminates_in m (f x)"
  shows "terminates_in (n + m) (bind p f)"
  using assms(1)
proof (induction rule: terminates_in.induct)
  case (Return n x)
  from assms(2)[of x] show ?case by (simp add: terminates_in_mono)
next
  case (Log n p msg)
  then show ?case by (simp add: terminates_in.Log)
next
  case (GetPR n k owner repo number)
  show ?case by (simp, rule terminates_in.GetPR, rule GetPR.IH)
next
  case (FindExistingPR n k owner repo head base)
  show ?case by (simp, rule terminates_in.FindExistingPR, rule FindExistingPR.IH)
next
  case (CreatePR n k owner repo pr)
  show ?case by (simp, rule terminates_in.CreatePR, rule CreatePR.IH)
next
  case (Run n k args)
  show ?case by (simp, rule terminates_in.Run, rule Run.IH)
qed

lemma terminates_in_LogI: "0 < m \<Longrightarrow> terminates_in (m - 1) p \<Longrightarrow> terminates_in m (Log msg p)"
  by (cases m) (simp_all add: terminates_in.Log)

lemma terminates_in_GetPRI:
  assumes "0 < m" and "\<And>r. r \<noteq> (None, None) \<Longrightarrow> terminates_in (m - 1) (k r)"
  shows "terminates_in m (Call_GetPR owner repo number k)"
proof -
  from assms(1) obtain m' where m: "m = Suc m'" by (cases m) auto
  show ?thesis unfolding m by (rule terminates_in.GetPR) (use assms(2) m in simp)
qed

lemma terminates_in_FindExistingPRI:
  "0 < m \<Longrightarrow> (\<And>r. terminates_in (m - 1) (k r)) \<Longrightarrow>
     terminates_in m (Call_FindExistingPR owner repo head base k)"
  by (cases m) (simp_all add: terminates_in.FindExistingPR)

lemma terminates_in_CreatePRI:
  "0 < m \<Longrightarrow> (\<And>r. terminates_in (m - 1) (k r)) \<Longrightarrow>
     terminates_in m (Call_CreatePR owner repo pr k)"
  by (cases m) (simp_all add: terminates_in.CreatePR)

lemma terminates_in_RunI:
  "0 < m \<Longrightarrow> (\<And>r. terminates_in (m - 1) (k r)) \<Longrightarrow> terminates_in m (Call_Run args k)"
  by (cases m) (simp_all add: terminates_in.Run)

lemma terminates_in_bindI:
  "terminates_in n p \<Longrightarrow> (\<And>x. terminates_in (k - n) (f x)) \<Longrightarrow> n \<le> k \<Longrightarrow>
     terminates_in k (bind p f)"
  using terminates_in_bind[of n p "k - n" f] by simp

lemmas terminates_inI = terminates_in.Return terminates_in_LogI terminates_in_GetPRI
  terminates_in_FindExistingPRI terminates_in_CreatePRI terminates_in_RunI

lemma git_chain_terminates:
  "terminates_in 10
    (Call_Run a1 (\<lambda>err. case err of
       Some e \<Rightarrow> Return (Some (f1 e))
     | None \<Rightarrow>
     Call_Run a2 (\<lambda>err. case err of
       Some e \<Rightarrow> Return (Some (f2 e))
     | None \<Rightarrow>
     Log l3 (
     Call_Run a3 (\<lambda>err. case err of
       Some e \<Rightarrow> Return (Some (f3 e))
     | None \<Rightarrow>
     Log l4 (
     Call_Run a4 (\<lambda>err. case err of
       Some e \<Rightarrow> Return (Some (f4 e))
     | None \<Rightarrow>
     Log l5 (
     Call_Run a5 (\<lambda>err. case err of
       Some e \<Rightarrow>
         Call_Run ab (\<lambda>_.
         Return (Some (f5 e)))
     | None \<Rightarrow>
     Log l6 (
     Call_Run a6 (\<lambda>err. case err of
       Some e \<Rightarrow> Return (Some (f6 e))
     | None \<Rightarrow> Return None)))))))))))"
  by (auto intro!: terminates_inI split: option.splits)

lemma performGitOperations_terminates: "terminates_in 10 (performGitOperations cfg t c m)"
  unfolding performGitOperations_def by (rule git_chain_terminates)

lemma pipeline_terminates:
  assumes "\<And>pr. terminates_in 10 (G pr)"
  shows "terminates_in 17
    (Log l0 (Call_GetPR ow rp n (\<lambda>(pr, err). case err of
       Some e \<Rightarrow> Return (R1 e)
     | None \<Rightarrow>
     (case pr of
       None \<Rightarrow> Panic
     | Some p \<Rightarrow>
     if C p then Return (R2 pr)
     else
     Log (l1 pr) (
     Call_FindExistingPR ow rp h b (\<lambda>(existingPR, err).
     (case err of Some e \<Rightarrow> Log (l2 e) | None \<Rightarrow> (\<lambda>rest. rest)) (
     if existingPR \<noteq> None then Log (l3 existingPR) (Return (R3 existingPR))
     else
     bind (G pr) (\<lambda>err. case err of
       Some e \<Rightarrow> Return (R4 e)
     | None \<Rightarrow>
     Call_CreatePR ow rp q (\<lambda>(newPR, err). case err of
       Some e \<Rightarrow> Return (R5 e)
     | None \<Rightarrow> Log (l4 newPR) (Return (R6 newPR)))))))))))"
proof -
  have tail: "terminates_in 12 (bind (G pr) (\<lambda>err. case err of
       Some e \<Rightarrow> Return (R4 e)
     | None \<Rightarrow>
     Call_CreatePR ow rp q (\<lambda>(newPR, err). case err of
       Some e \<Rightarrow> Return (R5 e)
     | None \<Rightarrow> Log (l4 newPR) (Return (R6 newPR)))))" for pr
    by (rule terminates_in_bindI[OF assms]) (auto intro!: terminates_inI split: option.splits)
  have tail': "terminates_in 13 (bind (G pr) (\<lambda>err. case err of
       Some e \<Rightarrow> Return (R4 e)
     | None \<Rightarrow>
     Call_CreatePR ow rp q (\<lambda>(newPR, err). case err of
       Some e \<Rightarrow> Return (R5 e)
     | None \<Rightarrow> Log (l4 newPR) (Return (R6 newPR)))))" for pr
    by (rule terminates_in_mono[OF tail]) simp
  show ?thesis
  proof (rule terminates_in_LogI, simp, rule terminates_in_GetPRI, simp)
    fix r :: "PullRequest option \<times> err option"
    assume "r \<noteq> (None, None)"
    then consider e pr where "r = (pr, Some e)" | p where "r = (Some p, None)"
      by (cases r; cases "fst r"; cases "snd r") auto
    then show "terminates_in (17 - 1 - 1) (case r of (pr, err) \<Rightarrow> case err of
       Some e \<Rightarrow> Return (R1 e)
     | None \<Rightarrow>
     (case pr of
       None \<Rightarrow> Panic
     | Some p \<Rightarrow>
     if C p then Return (R2 pr)
     else
     Log (l1 pr) (
     Call_FindExistingPR ow rp h b (\<lambda>(existingPR, err).
     (case err of Some e \<Rightarrow> Log (l2 e) | None \<Rightarrow> (\<lambda>rest. rest)) (
     if existingPR \<noteq> None then Log (l3 existingPR) (Return (R3 existingPR))
     else
     bind (G pr) (\<lambda>err. case err of
       Some e \<Rightarrow> Return (R4 e)
     | None \<Rightarrow>
     Call_CreatePR ow rp q (\<lambda>(newPR, err). case err of
       Some e \<Rightarrow> Return (R5 e)
     | None \<Rightarrow> Log (l4 newPR) (Return (R6 newPR)))))))))"
    proof cases
      case 1
      then show ?thesis by (simp add: terminates_in.Return)
    next
      case 2
      then show ?thesis
        by (auto intro!: terminates_inI tail tail' split: option.splits)
    qed
  qed
qed

lemma ProcessBranch_terminates: "terminates_in 17 (ProcessBranch cfg targetBranch)"
  unfolding ProcessBranch_def Let_def
  by (rule pipeline_terminates) (rule performGitOperations_terminates)

lemma reaches_refl: "reaches g r [] g r"
  by (cases g) (simp_all add: reaches_def)

lemma residual_Return: "residual (Return x) evs = Some p \<Longrightarrow> evs = [] \<and> p = Return x"
  by (simp split: if_splits)

lemma reaches_trans:
  assumes "reaches g r evs1 g1 r1" and "reaches g1 r1 evs2 g2 r2"
  shows "reaches g r (evs1 @ evs2) g2 r2"
proof (cases g)
  case Done
  with assms show ?thesis by (simp add: reaches_def)
next
  case (Running p)
  show ?thesis
  proof (cases g1)
    case Done
    with assms Running show ?thesis by (auto simp: reaches_def)
  next
    case g1: (Running p1)
    with assms Running show ?thesis
      by (cases g2) (auto simp: reaches_def residual_append)
  qed
qed

lemma step_residual:
  assumes "step s p w = (p', w1, evs)"
  shows "residual p evs = Some p'"
  using assms by (cases p) (auto split: prod.splits)

lemma step_budget:
  assumes "step s p w = (p', w1, evs)" and "terminates_in n p" and "\<forall>x. p \<noteq> Return x"
    and "(None, None) \<notin> set (GetPR_replies evs)"
  shows "0 < n \<and> terminates_in (n - 1) p'"
  using assms(2)
proof (cases rule: terminates_in.cases)
  case (Return x)
  with assms(3) show ?thesis by simp
next
  case (Log n' q msg)
  with assms(1) show ?thesis by auto
next
  case (GetPR n' k owner repo number)
  obtain r w2 where r: "GetPR (github s) owner repo number w = (r, w2)"
    by (cases "GetPR (github s) owner repo number w")
  with assms(1) GetPR(2) have eq: "p' = k r" "evs = [EvGetPR owner repo number r]" by auto
  with assms(4) have "r \<noteq> (None, None)" by auto
  from GetPR(3)[OF this] GetPR(1) eq show ?thesis by simp
next
  case (FindExistingPR n' k owner repo head base)
  with assms(1) show ?thesis by (auto split: prod.splits)
next
  case (CreatePR n' k owner repo pr)
  with assms(1) show ?thesis by (auto split: prod.splits)
next
  case (Run n' k args)
  with assms(1) show ?thesis by (auto split: prod.splits)
qed

lemma goroutine_step_length:
  assumes "goroutine_step s index (gs, results, w) = ((gs1, results1, w1), evs)"
  shows "length gs1 = length gs \<and> length results1 = length results"
  using assms by (auto split: goroutine.splits prog.splits prod.splits)

lemma goroutine_step_others:
  assumes "goroutine_step s index (gs, results, w) = ((gs1, results1, w1), evs)" and "j \<noteq> index"
  shows "gs1 ! j = gs ! j \<and> results1 ! j = results ! j"
  using assms by (auto split: goroutine.splits prog.splits prod.splits)

lemma goroutine_step_reaches:
  assumes "goroutine_step s index (gs, results, w) = ((gs1, results1, w1), evs)"
    and "index < length gs" and "length results = length gs"
  shows "reaches (gs ! index) (results ! index) evs (gs1 ! index) (results1 ! index)"
proof (cases "gs ! index")
  case Done
  with assms show ?thesis by (auto simp: reaches_def)
next
  case (Running p)
  show ?thesis
  proof (cases "\<exists>x. p = Return x")
    case True
    with assms Running show ?thesis by (auto simp: reaches_def)
  next
    case False
    obtain p' w' evs' where st: "step s p w = (p', w', evs')" by (cases "step s p w")
    with False assms Running have "gs1 = gs[index := Running p']" "results1 = results" "evs = evs'"
      by (auto split: prog.splits)
    with step_residual[OF st] assms Running show ?thesis by (simp add: reaches_def)
  qed
qed

lemma goroutine_step_budget:
  assumes "goroutine_step s index (gs, results, w) = ((gs1, results1, w1), evs)"
    and "index < length gs" and "budget n (gs ! index)"
    and "(None, None) \<notin> set (GetPR_replies evs)"
  shows "budget (n - 1) (gs1 ! index)"
proof (cases "gs ! index")
  case Done
  with assms show ?thesis by auto
next
  case (Running p)
  show ?thesis
  proof (cases "\<exists>x. p = Return x")
    case True
    with assms Running show ?thesis by auto
  next
    case False
    obtain p' w' evs' where st: "step s p w = (p', w', evs')" by (cases "step s p w")
    with False assms Running have eq: "gs1 = gs[index := Running p']" "evs = evs'"
      by (auto split: prog.splits)
    from assms(3) Running have "terminates_in (n - 1) p" by simp
    from step_budget[OF st this] False assms(4) eq
    have "0 < n - 1 \<and> terminates_in (n - 1 - 1) p'" by simp
    with eq assms(2) show ?thesis by simp
  qed
qed

lemma events_of_simps:
  "events_of i [] = []"
  "events_of i (xs @ ys) = events_of i xs @ events_of i ys"
  "events_of i (map (Pair j) evs) = (if i = j then evs else [])"
  by (simp_all add: events_of_def comp_def)

lemma run_goroutines_reaches:
  assumes "run_goroutines s schedule (gs, results, w) = ((gs', results', w'), tr)"
    and "length results = length gs"
  shows "length gs' = length gs \<and> length results' = length gs \<and>
     (\<forall>i < length gs. reaches (gs ! i) (results ! i) (events_of i tr) (gs' ! i) (results' ! i))"
  using assms
proof (induction schedule arbitrary: gs results w tr)
  case Nil
  then show ?case by (simp add: events_of_simps reaches_refl)
next
  case (Cons index schedule)
  show ?case
  proof (cases "Running Panic \<in> set gs")
    case True
    with Cons.prems show ?thesis by (simp add: events_of_simps reaches_refl)
  next
    case no_panic: False
    show ?thesis
    proof (cases "index < length gs")
    case False
    with Cons.prems(1) no_panic
    have "run_goroutines s schedule (gs, results, w) = ((gs', results', w'), tr)" by simp
    from Cons.IH[OF this Cons.prems(2)] show ?thesis .
  next
    case True
    obtain gs1 results1 w1 evs where
      st: "goroutine_step s index (gs, results, w) = ((gs1, results1, w1), evs)"
      by (cases "goroutine_step s index (gs, results, w)") auto
    obtain tr' where rest: "run_goroutines s schedule (gs1, results1, w1) = ((gs', results', w'), tr')"
      and tr: "tr = map (Pair index) evs @ tr'"
      using Cons.prems(1) True no_panic st by (auto split: prod.splits)
    note len = goroutine_step_length[OF st]
    from Cons.IH[OF rest] len Cons.prems(2)
    have IH: "length gs' = length gs" "length results' = length gs"
      "\<And>i. i < length gs \<Longrightarrow>
         reaches (gs1 ! i) (results1 ! i) (events_of i tr') (gs' ! i) (results' ! i)"
      by simp_all
    have "reaches (gs ! i) (results ! i) (events_of i tr) (gs' ! i) (results' ! i)"
      if i: "i < length gs" for i
    proof (cases "i = index")
      case eq: True
      from goroutine_step_reaches[OF st True Cons.prems(2)]
      have "reaches (gs ! index) (results ! index) evs (gs1 ! index) (results1 ! index)" .
      from reaches_trans[OF this IH(3)[OF i[unfolded eq]]] eq show ?thesis
        by (simp add: tr events_of_simps)
    next
      case False
      from goroutine_step_others[OF st False] IH(3)[OF i] False show ?thesis
        by (simp add: tr events_of_simps)
    qed
    with IH(1,2) show ?thesis by simp
  qed
  qed
qed

lemma GetPR_replies_map_snd_append:
  "GetPR_replies (map snd (xs @ ys)) = GetPR_replies (map snd xs) @ GetPR_replies (map snd ys)"
  by (simp add: GetPR_replies_append)

lemma run_goroutines_all_done:
  assumes "run_goroutines s schedule (gs, results, w) = ((gs', results', w'), tr)"
    and "\<forall>i < length gs. budget (m i) (gs ! i)"
    and "\<forall>i < length gs. m i \<le> count_list schedule i"
    and "(None, None) \<notin> set (GetPR_replies (map snd tr))"
  shows "\<forall>i < length gs. gs' ! i = Done"
  using assms
proof (induction schedule arbitrary: gs results w tr m)
  case Nil
  have "gs ! i = Done" if "i < length gs" for i
  proof (cases "gs ! i")
    case (Running p)
    with Nil.prems(2,3) that show ?thesis by auto
  qed simp
  with Nil.prems(1) show ?case by simp
next
  case (Cons index schedule)
  have no_panic: "Running Panic \<notin> set gs"
  proof
    assume "Running Panic \<in> set gs"
    then obtain i where "i < length gs" "gs ! i = Running Panic" by (auto simp: in_set_conv_nth)
    with Cons.prems(2)[rule_format, of i] have "terminates_in (m i - 1) (Panic :: 'a prog)" by simp
    then show False by (rule terminates_in_PanicE)
  qed
  show ?case
  proof (cases "index < length gs")
    case False
    with Cons.prems(1) no_panic
    have rest: "run_goroutines s schedule (gs, results, w) = ((gs', results', w'), tr)" by simp
    from Cons.prems(3) False have "\<forall>i < length gs. m i \<le> count_list schedule i" by auto
    from Cons.IH[OF rest Cons.prems(2) this Cons.prems(4)] show ?thesis .
  next
    case True
    obtain gs1 results1 w1 evs where
      st: "goroutine_step s index (gs, results, w) = ((gs1, results1, w1), evs)"
      by (cases "goroutine_step s index (gs, results, w)") auto
    obtain tr' where rest: "run_goroutines s schedule (gs1, results1, w1) = ((gs', results', w'), tr')"
      and tr: "tr = map (Pair index) evs @ tr'"
      using Cons.prems(1) True no_panic st by (auto split: prod.splits)
    note len = goroutine_step_length[OF st]
    from Cons.prems(4) have conv: "(None, None) \<notin> set (GetPR_replies evs)"
      "(None, None) \<notin> set (GetPR_replies (map snd tr'))"
      by (simp_all add: tr GetPR_replies_append comp_def)
    let ?m = "m(index := m index - 1)"
    have b: "\<forall>i < length gs1. budget (?m i) (gs1 ! i)"
    proof (intro allI impI)
      fix i assume i: "i < length gs1"
      show "budget (?m i) (gs1 ! i)"
      proof (cases "i = index")
        case True
        from goroutine_step_budget[OF st \<open>index < length gs\<close> _ conv(1)] Cons.prems(2) i len True
        show ?thesis by simp
      next
        case False
        from goroutine_step_others[OF st False] Cons.prems(2) i len False show ?thesis by simp
      qed
    qed
    from Cons.prems(3) len have c: "\<forall>i < length gs1. ?m i \<le> count_list schedule i"
      by (auto split: if_splits)
    from Cons.IH[OF rest b c conv(2)] len show ?thesis by simp
  qed
qed

lemma residual_exec_scripted:
  "residual p evs = Some (Return x) \<Longrightarrow>
     exec scripted p (filter (\<lambda>ev. \<not> is_log ev) evs) = (Returned x, [], evs)"
proof (induction p arbitrary: evs)
  case (Return y)
  then show ?case by (simp split: if_splits)
next
  case Panic
  then show ?case by (simp split: if_splits)
next
  case (Log msg p)
  then show ?case by (cases evs) (auto split: if_splits)
next
  case (Call_GetPR owner repo number k)
  then show ?case
    by (cases evs) (auto simp: scripted_def split: if_splits event.splits)
next
  case (Call_FindExistingPR owner repo head base k)
  then show ?case
    by (cases evs) (auto simp: scripted_def split: if_splits event.splits)
next
  case (Call_CreatePR owner repo pr k)
  then show ?case
    by (cases evs) (auto simp: scripted_def split: if_splits event.splits)
next
  case (Call_Run args k)
  then show ?case
    by (cases evs) (auto simp: scripted_def split: if_splits event.splits)
qed

lemma ProcessBranch_Branch:
  assumes "exec sv (ProcessBranch cfg targetBranch) w = (Returned result, w', tr)"
  shows "Branch result = targetBranch"
  using assms by (cases rule: ProcessBranch_cases) simp_all

lemma replay_Returned:
  "replay p evs = Some (Returned x) \<longleftrightarrow> residual p evs = Some (Return x)"
  by (auto simp: replay_def split: option.splits prog.splits)

lemma step_answered:
  assumes "step s p w = (p', w1, evs)"
  shows "\<forall>ev \<in> set evs. answered_by s ev"
  using assms by (cases p) (auto split: prod.splits, (metis fst_conv)+)

lemma goroutine_step_answered:
  assumes "goroutine_step s index (gs, results, w) = ((gs1, results1, w1), evs)"
  shows "\<forall>ev \<in> set evs. answered_by s ev"
proof (cases "gs ! index")
  case Done
  with assms show ?thesis by simp
next
  case (Running p)
  show ?thesis
  proof (cases "\<exists>x. p = Return x")
    case True
    with assms Running show ?thesis by auto
  next
    case False
    obtain p' w' evs' where st: "step s p w = (p', w', evs')" by (cases "step s p w")
    with False assms Running have "evs = evs'" by (auto split: prog.splits)
    with step_answered[OF st] show ?thesis by simp
  qed
qed

lemma run_goroutines_answered:
  assumes "run_goroutines s schedule (gs, results, w) = ((gs', results', w'), tr)"
  shows "\<forall>ev \<in> set (events_of i tr). answered_by s ev"
  using assms
proof (induction schedule arbitrary: gs results w tr)
  case Nil
  then show ?case by (simp add: events_of_simps)
next
  case (Cons index schedule)
  show ?case
  proof (cases "Running Panic \<in> set gs")
    case True
    with Cons.prems show ?thesis by (simp add: events_of_simps)
  next
    case no_panic: False
    show ?thesis
    proof (cases "index < length gs")
      case False
      with Cons.prems no_panic
      have "run_goroutines s schedule (gs, results, w) = ((gs', results', w'), tr)" by simp
      from Cons.IH[OF this] show ?thesis .
    next
      case True
      obtain gs1 results1 w1 evs where
        st: "goroutine_step s index (gs, results, w) = ((gs1, results1, w1), evs)"
        by (cases "goroutine_step s index (gs, results, w)") auto
      obtain tr' where
        rest: "run_goroutines s schedule (gs1, results1, w1) = ((gs', results', w'), tr')"
        and tr: "tr = map (Pair index) evs @ tr'"
        using Cons.prems True no_panic st by (auto split: prod.splits)
      from Cons.IH[OF rest] goroutine_step_answered[OF st] show ?thesis
        by (auto simp: tr events_of_simps)
    qed
  qed
qed

lemma stateless_residual_exec:
  assumes "stateless s"
  shows "residual p evs = Some (Return x) \<Longrightarrow> \<forall>ev \<in> set evs. answered_by s ev \<Longrightarrow>
     fst (exec s p w0) = Returned x"
proof (induction p arbitrary: evs w0)
  case (Return y)
  then show ?case by (simp split: if_splits)
next
  case Panic
  then show ?case by (simp split: if_splits)
next
  case (Log msg p)
  from Log.prems obtain rest where evs: "evs = EvLog msg # rest"
    and k: "residual p rest = Some (Return x)" "\<forall>ev \<in> set rest. answered_by s ev"
    by (cases evs) (auto split: if_splits)
  from Log.IH[OF k, of w0] show ?case by (auto split: prod.splits)
next
  case (Call_GetPR owner repo number k)
  from Call_GetPR.prems obtain r rest w where evs: "evs = EvGetPR owner repo number r # rest"
    and k: "residual (k r) rest = Some (Return x)" "\<forall>ev \<in> set rest. answered_by s ev"
    and r: "r = fst (GetPR (github s) owner repo number w)"
    by (cases evs) (auto split: if_splits event.splits)
  from r assms have "fst (GetPR (github s) owner repo number w0) = r"
    unfolding stateless_def by metis
  with Call_GetPR.IH[OF rangeI k] show ?case
    by (auto split: prod.splits, metis fst_conv)
next
  case (Call_FindExistingPR owner repo head base k)
  from Call_FindExistingPR.prems obtain r rest w where
    evs: "evs = EvFindExistingPR owner repo head base r # rest"
    and k: "residual (k r) rest = Some (Return x)" "\<forall>ev \<in> set rest. answered_by s ev"
    and r: "r = fst (FindExistingPR (github s) owner repo head base w)"
    by (cases evs) (auto split: if_splits event.splits)
  from r assms have "fst (FindExistingPR (github s) owner repo head base w0) = r"
    unfolding stateless_def by metis
  with Call_FindExistingPR.IH[OF rangeI k] show ?case
    by (auto split: prod.splits, metis fst_conv)
next
  case (Call_CreatePR owner repo pr k)
  from Call_CreatePR.prems obtain r rest w where evs: "evs = EvCreatePR owner repo pr r # rest"
    and k: "residual (k r) rest = Some (Return x)" "\<forall>ev \<in> set rest. answered_by s ev"
    and r: "r = fst (CreatePR (github s) owner repo pr w)"
    by (cases evs) (auto split: if_splits event.splits)
  from r assms have "fst (CreatePR (github s) owner repo pr w0) = r"
    unfolding stateless_def by metis
  with Call_CreatePR.IH[OF rangeI k] show ?case
    by (auto split: prod.splits, metis fst_conv)
next
  case (Call_Run args k)
  from Call_Run.prems obtain r rest w where evs: "evs = EvRun args r # rest"
    and k: "residual (k r) rest = Some (Return x)" "\<forall>ev \<in> set rest. answered_by s ev"
    and r: "r = fst (git s args w)"
    by (cases evs) (auto split: if_splits event.splits)
  from r assms have "fst (git s args w0) = r"
    unfolding stateless_def by metis
  with Call_Run.IH[OF rangeI k] show ?case
    by (auto split: prod.splits, metis fst_conv)
qed

section \<open>The test doubles, run\<close>

lemmas test_defs = ProcessBranch_def performGitOperations_def NewService_def
  mockGitHubClient_def mockGitRunner_def test_cfg_def cherryPickBranch_def
  GetMergeCommitSHA_def GetNumber_def GetState_def merged_pr_def Let_def Errorf_w_def

lemma show_int_123: "show_int 123 = ''123''"
  by (simp add: show_int_def digit_char_def)

lemma show_int_456: "show_int 456 = ''456''"
  by (simp add: show_int_def digit_char_def)

lemma show_int_789: "show_int 789 = ''789''"
  by (simp add: show_int_def digit_char_def)

lemma test_cfg_fields:
  "PRNumber test_cfg = 123" "RepoOwner test_cfg = ''owner''" "RepoName test_cfg = ''repo''"
  "GitUserName test_cfg = ''Test Bot''" "GitUserEmail test_cfg = ''bot@test.com''"
  by (simp_all add: test_cfg_def)

lemma test_pr_fields:
  "Merged merged_pr = Some True" "GetMergeCommitSHA (Some merged_pr) = ''abc123''"
  "Merged open_pr = Some False"
  by (simp_all add: merged_pr_def open_pr_def GetMergeCommitSHA_def)

lemma exec_not_merged_service:
  "exec not_merged_service (ProcessBranch test_cfg ''main'') [] =
    (Returned \<lparr>Branch = ''main'', Success = False, ExistingPR = None, NewPR = None, Error = None,
       ErrorMessage = ''PR #123 is not merged yet (state: open). Cherry-pick requires merged PRs.''\<rparr>,
     [],
     [EvLog ([CHR 0xF0, CHR 0x9F, CHR 0xA4, CHR 0x96] @ '' Starting cherry-pick to main...''),
      EvGetPR ''owner'' ''repo'' 123 (Some open_pr, None)])"
  by (simp add: test_defs not_merged_service_def show_int_123 open_pr_def)

lemma exec_existing_service:
  "exec existing_service (ProcessBranch test_cfg ''release'') [] =
    (Returned \<lparr>Branch = ''release'', Success = True, ExistingPR = Some existing_pr, NewPR = None,
       Error = None, ErrorMessage = []\<rparr>,
     [],
     [EvLog ([CHR 0xF0, CHR 0x9F, CHR 0xA4, CHR 0x96] @ '' Starting cherry-pick to release...''),
      EvGetPR ''owner'' ''repo'' 123 (Some merged_pr, None),
      EvLog ''Found merge commit: abc123'',
      EvFindExistingPR ''owner'' ''repo'' ''cherry-pick-123-to-release'' ''release''
        (Some existing_pr, None),
      EvLog ([CHR 0xE2, CHR 0x84, CHR 0xB9, CHR 0xEF, CHR 0xB8, CHR 0x8F] @
        ''  Cherry-pick PR already exists: #456'')])"
  by (simp add: test_defs existing_service_def show_int_123 show_int_456 existing_pr_def)

lemma exec_success_service:
  "exec success_service (ProcessBranch test_cfg ''release'') [] =
    (Returned \<lparr>Branch = ''release'', Success = True, ExistingPR = None,
       NewPR = Some new_pr, Error = None, ErrorMessage = []\<rparr>,
     [[''config'', ''user.name'', ''Test Bot''],
      [''config'', ''user.email'', ''bot@test.com''],
      [''fetch'', ''origin'', ''release''],
      [''checkout'', ''-b'', ''cherry-pick-123-to-release'', ''origin/release''],
      [''cherry-pick'', ''-m'', ''1'', ''abc123''],
      [''push'', ''origin'', ''cherry-pick-123-to-release'']],
     [EvLog ([CHR 0xF0, CHR 0x9F, CHR 0xA4, CHR 0x96] @ '' Starting cherry-pick to release...''),
      EvGetPR ''owner'' ''repo'' 123 (Some merged_pr, None),
      EvLog ''Found merge commit: abc123'',
      EvFindExistingPR ''owner'' ''repo'' ''cherry-pick-123-to-release'' ''release'' (None, None),
      EvRun [''config'', ''user.name'', ''Test Bot''] None,
      EvRun [''config'', ''user.email'', ''bot@test.com''] None,
      EvLog ''Fetching target branch: release...'',
      EvRun [''fetch'', ''origin'', ''release''] None,
      EvLog ''Creating cherry-pick branch: cherry-pick-123-to-release...'',
      EvRun [''checkout'', ''-b'', ''cherry-pick-123-to-release'', ''origin/release''] None,
      EvLog ''Cherry-picking commit abc123...'',
      EvRun [''cherry-pick'', ''-m'', ''1'', ''abc123''] None,
      EvLog ''Pushing cherry-pick branch...'',
      EvRun [''push'', ''origin'', ''cherry-pick-123-to-release''] None,
      EvCreatePR ''owner'' ''repo''
        \<lparr>Title = Some ''Cherry-pick #123 to release'', Head = Some ''cherry-pick-123-to-release'',
         Base = Some ''release'', Body = Some ''Automatic cherry-pick of #123 to `release`''\<rparr>
        (Some new_pr, None),
      EvLog ([CHR 0xE2, CHR 0x9C, CHR 0x85] @ '' Cherry-pick completed successfully! PR #789 created'')])"
  by (simp add: test_defs success_service_def show_int_123 show_int_789 new_pr_def)

lemma exec_conflict_service:
  "exec conflict_service (ProcessBranch test_cfg ''release'') [] =
    (Returned \<lparr>Branch = ''release'', Success = False, ExistingPR = None, NewPR = None,
       Error = Some (Err
         ''cherry-pick failed due to conflicts or other errors: cherry-pick failed: conflicts''),
       ErrorMessage =
         ''cherry-pick failed due to conflicts or other errors: cherry-pick failed: conflicts''\<rparr>,
     [[''config'', ''user.name'', ''Test Bot''],
      [''config'', ''user.email'', ''bot@test.com''],
      [''fetch'', ''origin'', ''release''],
      [''checkout'', ''-b'', ''cherry-pick-123-to-release'', ''origin/release''],
      [''cherry-pick'', ''-m'', ''1'', ''abc123''],
      [''cherry-pick'', ''--abort'']],
     [EvLog ([CHR 0xF0, CHR 0x9F, CHR 0xA4, CHR 0x96] @ '' Starting cherry-pick to release...''),
      EvGetPR ''owner'' ''repo'' 123 (Some merged_pr, None),
      EvLog ''Found merge commit: abc123'',
      EvFindExistingPR ''owner'' ''repo'' ''cherry-pick-123-to-release'' ''release'' (None, None),
      EvRun [''config'', ''user.name'', ''Test Bot''] None,
      EvRun [''config'', ''user.email'', ''bot@test.com''] None,
      EvLog ''Fetching target branch: release...'',
      EvRun [''fetch'', ''origin'', ''release''] None,
      EvLog ''Creating cherry-pick branch: cherry-pick-123-to-release...'',
      EvRun [''checkout'', ''-b'', ''cherry-pick-123-to-release'', ''origin/release''] None,
      EvLog ''Cherry-picking commit abc123...'',
      EvRun [''cherry-pick'', ''-m'', ''1'', ''abc123''] (Some (Err ''cherry-pick failed: conflicts'')),
      EvRun [''cherry-pick'', ''--abort''] (Some (Err ''cherry-pick failed: conflicts''))])"
  by (simp add: test_defs conflict_service_def show_int_123)

lemma exec_lookup_error_service:
  "exec lookup_error_service (ProcessBranch test_cfg ''release'') [] =
    (Returned \<lparr>Branch = ''release'', Success = True, ExistingPR = None,
       NewPR = Some new_pr, Error = None, ErrorMessage = []\<rparr>,
     [[''config'', ''user.name'', ''Test Bot''],
      [''config'', ''user.email'', ''bot@test.com''],
      [''fetch'', ''origin'', ''release''],
      [''checkout'', ''-b'', ''cherry-pick-123-to-release'', ''origin/release''],
      [''cherry-pick'', ''-m'', ''1'', ''abc123''],
      [''push'', ''origin'', ''cherry-pick-123-to-release'']],
     [EvLog ([CHR 0xF0, CHR 0x9F, CHR 0xA4, CHR 0x96] @ '' Starting cherry-pick to release...''),
      EvGetPR ''owner'' ''repo'' 123 (Some merged_pr, None),
      EvLog ''Found merge commit: abc123'',
      EvFindExistingPR ''owner'' ''repo'' ''cherry-pick-123-to-release'' ''release''
        (None, Some (Err ''502 Bad Gateway'')),
      EvLog ''Warning: error checking for existing PR: 502 Bad Gateway'',
      EvRun [''config'', ''user.name'', ''Test Bot''] None,
      EvRun [''config'', ''user.email'', ''bot@test.com''] None,
      EvLog ''Fetching target branch: release...'',
      EvRun [''fetch'', ''origin'', ''release''] None,
      EvLog ''Creating cherry-pick branch: cherry-pick-123-to-release...'',
      EvRun [''checkout'', ''-b'', ''cherry-pick-123-to-release'', ''origin/release''] None,
      EvLog ''Cherry-picking commit abc123...'',
      EvRun [''cherry-pick'', ''-m'', ''1'', ''abc123''] None,
      EvLog ''Pushing cherry-pick branch...'',
      EvRun [''push'', ''origin'', ''cherry-pick-123-to-release''] None,
      EvCreatePR ''owner'' ''repo''
        \<lparr>Title = Some ''Cherry-pick #123 to release'', Head = Some ''cherry-pick-123-to-release'',
         Base = Some ''release'', Body = Some ''Automatic cherry-pick of #123 to `release`''\<rparr>
        (Some new_pr, None),
      EvLog ([CHR 0xE2, CHR 0x9C, CHR 0x85] @ '' Cherry-pick completed successfully! PR #789 created'')])"
  by (simp add: test_defs lookup_error_service_def show_int_123 show_int_789 new_pr_def)

lemma exec_several_matches_service:
  "exec several_matches_service (ProcessBranch test_cfg ''release'') [] =
    (Returned \<lparr>Branch = ''release'', Success = True, ExistingPR = Some existing_pr, NewPR = None,
       Error = None, ErrorMessage = []\<rparr>,
     [],
     [EvLog ([CHR 0xF0, CHR 0x9F, CHR 0xA4, CHR 0x96] @ '' Starting cherry-pick to release...''),
      EvGetPR ''owner'' ''repo'' 123 (Some merged_pr, None),
      EvLog ''Found merge commit: abc123'',
      EvFindExistingPR ''owner'' ''repo'' ''cherry-pick-123-to-release'' ''release''
        (Some existing_pr, None),
      EvLog ([CHR 0xE2, CHR 0x84, CHR 0xB9, CHR 0xEF, CHR 0xB8, CHR 0x8F] @
        ''  Cherry-pick PR already exists: #456'')])"
  by (simp add: test_defs several_matches_service_def several_matches_client_def
      NewDefaultGitHubClient_def DefaultGitHubClient_FindExistingPR_def DefaultGitHubClient_GetPR_def
      show_int_123 show_int_456 existing_pr_def)

lemma two_branches_cfg_fields:
  "PRNumber two_branches_cfg = 123" "RepoOwner two_branches_cfg = ''owner''"
  "RepoName two_branches_cfg = ''repo''" "GitUserName two_branches_cfg = ''Test Bot''"
  "GitUserEmail two_branches_cfg = ''bot@test.com''"
  "Branches two_branches_cfg = [''nonexistent'', ''release'']"
  by (simp_all add: two_branches_cfg_def)

lemma ProcessBranches_one_fetch_fails:
  "ProcessBranches one_fetch_fails_service two_branches_cfg alternating [] =
    (Some (Returned
      [Some \<lparr>Branch = ''nonexistent'', Success = False, ExistingPR = None, NewPR = None,
         Error = Some (Err (''target branch '' @ [CHR 0x27] @ ''nonexistent'' @ [CHR 0x27] @
           '' does not exist or cannot be fetched: fetch failed: branch not found'')),
         ErrorMessage = ''target branch '' @ [CHR 0x27] @ ''nonexistent'' @ [CHR 0x27] @
           '' does not exist or cannot be fetched: fetch failed: branch not found''\<rparr>,
       Some \<lparr>Branch = ''release'', Success = True, ExistingPR = None, NewPR = Some new_pr,
         Error = None, ErrorMessage = []\<rparr>]),
     [[''config'', ''user.name'', ''Test Bot''],
      [''config'', ''user.name'', ''Test Bot''],
      [''config'', ''user.email'', ''bot@test.com''],
      [''config'', ''user.email'', ''bot@test.com''],
      [''fetch'', ''origin'', ''release''],
      [''fetch'', ''origin'', ''nonexistent''],
      [''checkout'', ''-b'', ''cherry-pick-123-to-release'', ''origin/release''],
      [''cherry-pick'', ''-m'', ''1'', ''abc123''],
      [''push'', ''origin'', ''cherry-pick-123-to-release'']],
     [(1, EvLog ([CHR 0xF0, CHR 0x9F, CHR 0xA4, CHR 0x96] @ '' Starting cherry-pick to release...'')),
      (0, EvLog ([CHR 0xF0, CHR 0x9F, CHR 0xA4, CHR 0x96] @ '' Starting cherry-pick to nonexistent...'')),
      (1, EvGetPR ''owner'' ''repo'' 123 (Some merged_pr, None)),
      (0, EvGetPR ''owner'' ''repo'' 123 (Some merged_pr, None)),
      (1, EvLog ''Found merge commit: abc123''),
      (0, EvLog ''Found merge commit: abc123''),
      (1, EvFindExistingPR ''owner'' ''repo'' ''cherry-pick-123-to-release'' ''release'' (None, None)),
      (0, EvFindExistingPR ''owner'' ''repo'' ''cherry-pick-123-to-nonexistent'' ''nonexistent''
            (None, None)),
      (1, EvRun [''config'', ''user.name'', ''Test Bot''] None),
      (0, EvRun [''config'', ''user.name'', ''Test Bot''] None),
      (1, EvRun [''config'', ''user.email'', ''bot@test.com''] None),
      (0, EvRun [''config'', ''user.email'', ''bot@test.com''] None),
      (1, EvLog ''Fetching target branch: release...''),
      (0, EvLog ''Fetching target branch: nonexistent...''),
      (1, EvRun [''fetch'', ''origin'', ''release''] None),
      (0, EvRun [''fetch'', ''origin'', ''nonexistent''] (Some (Err ''fetch failed: branch not found''))),
      (1, EvLog ''Creating cherry-pick branch: cherry-pick-123-to-release...''),
      (1, EvRun [''checkout'', ''-b'', ''cherry-pick-123-to-release'', ''origin/release''] None),
      (1, EvLog ''Cherry-picking commit abc123...''),
      (1, EvRun [''cherry-pick'', ''-m'', ''1'', ''abc123''] None),
      (1, EvLog ''Pushing cherry-pick branch...''),
      (1, EvRun [''push'', ''origin'', ''cherry-pick-123-to-release''] None),
      (1, EvCreatePR ''owner'' ''repo''
        \<lparr>Title = Some ''Cherry-pick #123 to release'', Head = Some ''cherry-pick-123-to-release'',
         Base = Some ''release'', Body = Some ''Automatic cherry-pick of #123 to `release`''\<rparr>
        (Some new_pr, None)),
      (1, EvLog ([CHR 0xE2, CHR 0x9C, CHR 0x85] @
            '' Cherry-pick completed successfully! PR #789 created''))])"
  by (simp add: ProcessBranches_def alternating_def one_fetch_fails_service_def
      two_branches_cfg_def ProcessBranch_def performGitOperations_def NewService_def
      mockGitHubClient_def mockGitRunner_def cherryPickBranch_def
      GetMergeCommitSHA_def GetNumber_def GetState_def merged_pr_def Let_def Errorf_w_def
      show_int_123 show_int_789 new_pr_def)

text \<open>With a client that replies with a nil pull request and a nil error, the goroutine
  that reads \<^verbatim>\<open>pr.Merged\<close> first panics, and the process ends without a list of results.\<close>

lemma ProcessBranches_nil_pull_request:
  "fst (ProcessBranches nil_pull_request_service two_branches_cfg alternating []) = Some Panicked"
  by (simp add: ProcessBranches_def alternating_def nil_pull_request_service_def
      two_branches_cfg_def ProcessBranch_def NewService_def mockGitHubClient_def Let_def)

text \<open>The runs over one working tree.\<close>

lemmas one_working_tree_defs = ProcessBranches_def during_cherry_pick_def
  one_working_tree_service_def one_working_tree_def clean_tree_def
  ProcessBranch_def performGitOperations_def NewService_def
  mockGitHubClient_def cherryPickBranch_def
  GetMergeCommitSHA_def GetNumber_def GetState_def merged_pr_def Let_def Errorf_w_def
  show_int_123 show_int_789 new_pr_def

lemma ProcessBranches_conflicting:
  "ProcessBranches one_working_tree_service conflicting_cfg during_cherry_pick clean_tree =
    (Some (Returned
       [Some \<lparr>Branch = ''conflicting'', Success = False, ExistingPR = None, NewPR = None,
          Error = Some (Err
            ''cherry-pick failed due to conflicts or other errors: error: could not apply abc123''),
          ErrorMessage =
            ''cherry-pick failed due to conflicts or other errors: error: could not apply abc123''\<rparr>,
        Some \<lparr>Branch = ''release'', Success = False, ExistingPR = None, NewPR = None,
          Error = Some (Err
            ''failed to create cherry-pick branch: error: you need to resolve your current index first''),
          ErrorMessage =
            ''failed to create cherry-pick branch: error: you need to resolve your current index first''\<rparr>]),
     \<lparr>HEAD = ''cherry-pick-123-to-conflicting'', cherry_pick_in_progress = False\<rparr>,
     [(0, EvLog ([CHR 0xF0, CHR 0x9F, CHR 0xA4, CHR 0x96] @ '' Starting cherry-pick to conflicting...'')),
      (0, EvGetPR ''owner'' ''repo'' 123 (Some merged_pr, None)),
      (0, EvLog ''Found merge commit: abc123''),
      (0, EvFindExistingPR ''owner'' ''repo'' ''cherry-pick-123-to-conflicting'' ''conflicting''
            (None, None)),
      (0, EvRun [''config'', ''user.name'', ''Test Bot''] None),
      (0, EvRun [''config'', ''user.email'', ''bot@test.com''] None),
      (0, EvLog ''Fetching target branch: conflicting...''),
      (0, EvRun [''fetch'', ''origin'', ''conflicting''] None),
      (0, EvLog ''Creating cherry-pick branch: cherry-pick-123-to-conflicting...''),
      (0, EvRun [''checkout'', ''-b'', ''cherry-pick-123-to-conflicting'', ''origin/conflicting''] None),
      (0, EvLog ''Cherry-picking commit abc123...''),
      (0, EvRun [''cherry-pick'', ''-m'', ''1'', ''abc123'']
            (Some (Err ''error: could not apply abc123''))),
      (1, EvLog ([CHR 0xF0, CHR 0x9F, CHR 0xA4, CHR 0x96] @ '' Starting cherry-pick to release...'')),
      (1, EvGetPR ''owner'' ''repo'' 123 (Some merged_pr, None)),
      (1, EvLog ''Found merge commit: abc123''),
      (1, EvFindExistingPR ''owner'' ''repo'' ''cherry-pick-123-to-release'' ''release'' (None, None)),
      (1, EvRun [''config'', ''user.name'', ''Test Bot''] None),
      (1, EvRun [''config'', ''user.email'', ''bot@test.com''] None),
      (1, EvLog ''Fetching target branch: release...''),
      (1, EvRun [''fetch'', ''origin'', ''release''] None),
      (1, EvLog ''Creating cherry-pick branch: cherry-pick-123-to-release...''),
      (1, EvRun [''checkout'', ''-b'', ''cherry-pick-123-to-release'', ''origin/release'']
            (Some (Err ''error: you need to resolve your current index first''))),
      (0, EvRun [''cherry-pick'', ''--abort''] None)])"
  by (simp add: one_working_tree_defs conflicting_cfg_def)

lemma ProcessBranch_release_alone:
  "fst (exec one_working_tree_service (ProcessBranch conflicting_cfg ''release'') clean_tree) =
     Returned \<lparr>Branch = ''release'', Success = True, ExistingPR = None, NewPR = Some new_pr,
       Error = None, ErrorMessage = []\<rparr>"
  by (simp add: one_working_tree_defs conflicting_cfg_def)

lemma ProcessBranches_stable:
  "fst (ProcessBranches one_working_tree_service stable_cfg during_cherry_pick clean_tree) =
     Some (Returned
       [Some \<lparr>Branch = ''stable'', Success = True, ExistingPR = None, NewPR = Some new_pr,
          Error = None, ErrorMessage = []\<rparr>,
        Some \<lparr>Branch = ''release'', Success = True, ExistingPR = None, NewPR = Some new_pr,
          Error = None, ErrorMessage = []\<rparr>])"
  by (simp add: one_working_tree_defs stable_cfg_def)

section \<open>Properties\<close>

text \<open>
  C1: whenever a run of \<^verbatim>\<open>ProcessBranch\<close> got a merged pull request from \<^verbatim>\<open>GetPR\<close>, no
  pull request from \<^verbatim>\<open>FindExistingPR\<close>, success from every git command and a nil error
  from \<^verbatim>\<open>CreatePR\<close>, it issued exactly six git commands, in this order:
  config user.name, config user.email, fetch origin target, checkout -b of the
  deterministic branch from origin/target, cherry-pick -m 1 of the merge commit, push
  origin of the deterministic branch; and it returned a \<^verbatim>\<open>Result\<close> with \<^verbatim>\<open>Success\<close> true and
  \<^verbatim>\<open>NewPR\<close> the pull request that \<^verbatim>\<open>CreatePR\<close> returned.
\<close>

theorem ProcessBranch_success:
  assumes run: "exec sv (ProcessBranch cfg targetBranch) w = (out, w', tr)"
    and merged: "\<forall>r \<in> set (GetPR_replies tr). \<exists>pr. r = (Some pr, None) \<and> Merged pr = Some True"
    and no_match: "\<forall>r \<in> set (FindExistingPR_replies tr). fst r = None"
    and git_ok: "\<forall>(args, r) \<in> set (git_runs tr). r = None"
    and create_ok: "\<forall>r \<in> set (CreatePR_replies tr). snd r = None"
  shows "\<exists>pr created.
     GetPR_replies tr = [(Some pr, None)] \<and>
     CreatePR_replies tr = [(created, None)] \<and>
     git_runs tr =
       [([''config'', ''user.name'', GitUserName cfg], None),
        ([''config'', ''user.email'', GitUserEmail cfg], None),
        ([''fetch'', ''origin'', targetBranch], None),
        ([''checkout'', ''-b'', ''cherry-pick-'' @ show_int (PRNumber cfg) @ ''-to-'' @ targetBranch,
          ''origin/'' @ targetBranch], None),
        ([''cherry-pick'', ''-m'', ''1'', GetMergeCommitSHA (Some pr)], None),
        ([''push'', ''origin'', ''cherry-pick-'' @ show_int (PRNumber cfg) @ ''-to-'' @ targetBranch], None)] \<and>
     out = Returned \<lparr>Branch = targetBranch, Success = True, ExistingPR = None,
       NewPR = created, Error = None, ErrorMessage = []\<rparr>"
  using run
proof (cases rule: ProcessBranch_cases)
  case (git_error p ferr w2 gtr e)
  from performGitOperations_error[OF git_error(2)] git_error(3) git_ok show ?thesis
    by (auto simp: observers_append)
next
  case (CreatePR_error p ferr w2 w3 gtr x e)
  from CreatePR_error(3) create_ok show ?thesis
    by (simp add: observers_append observers_warning_events)
next
  case (created p ferr w2 w3 gtr x)
  from created(3) git_ok have ok: "\<forall>(args, r) \<in> set (git_runs gtr). r = None"
    by (simp add: observers_append observers_warning_events)
  from created(2) have gtr: "git_runs gtr =
       [([''config'', ''user.name'', GitUserName cfg], None),
        ([''config'', ''user.email'', GitUserEmail cfg], None),
        ([''fetch'', ''origin'', targetBranch], None),
        ([''checkout'', ''-b'', cherryPickBranch cfg targetBranch, ''origin/'' @ targetBranch], None),
        ([''cherry-pick'', ''-m'', ''1'', GetMergeCommitSHA (Some p)], None),
        ([''push'', ''origin'', cherryPickBranch cfg targetBranch], None)]"
    by (cases rule: performGitOperations_cases) (use ok in simp_all)
  from performGitOperations_no_github[OF created(2)]
  have none: "GetPR_replies gtr = []" "CreatePR_replies gtr = []" by simp_all
  have "GetPR_replies tr = [(Some p, None)]" "CreatePR_replies tr = [(x, None)]"
    "git_runs tr = git_runs gtr"
    unfolding created(3) by (simp_all add: observers_append observers_warning_events none)
  with gtr created(4) show ?thesis
    by (simp add: cherryPickBranch_def)
qed (use merged no_match in auto)

theorem ProcessBranch_success_witness:
  "\<exists>out w' tr. exec success_service (ProcessBranch test_cfg ''release'') [] = (out, w', tr) \<and>
     GetPR_replies tr = [(Some merged_pr, None)] \<and>
     CreatePR_replies tr = [(Some new_pr, None)] \<and>
     git_runs tr =
       [([''config'', ''user.name'', ''Test Bot''], None),
        ([''config'', ''user.email'', ''bot@test.com''], None),
        ([''fetch'', ''origin'', ''release''], None),
        ([''checkout'', ''-b'', ''cherry-pick-123-to-release'', ''origin/release''], None),
        ([''cherry-pick'', ''-m'', ''1'', ''abc123''], None),
        ([''push'', ''origin'', ''cherry-pick-123-to-release''], None)] \<and>
     out = Returned \<lparr>Branch = ''release'', Success = True, ExistingPR = None,
       NewPR = Some new_pr, Error = None, ErrorMessage = []\<rparr>"
proof -
  let ?tr = "snd (snd (exec success_service (ProcessBranch test_cfg ''release'') []))"
  have run: "exec success_service (ProcessBranch test_cfg ''release'') [] =
    (fst (exec success_service (ProcessBranch test_cfg ''release'') []),
     fst (snd (exec success_service (ProcessBranch test_cfg ''release'') [])), ?tr)"
    by simp
  have merged: "\<forall>r \<in> set (GetPR_replies ?tr). \<exists>pr. r = (Some pr, None) \<and> Merged pr = Some True"
    and no_match: "\<forall>r \<in> set (FindExistingPR_replies ?tr). fst r = None"
    and git_ok: "\<forall>(args, r) \<in> set (git_runs ?tr). r = None"
    and create_ok: "\<forall>r \<in> set (CreatePR_replies ?tr). snd r = None"
    by (simp_all add: exec_success_service test_pr_fields)
  from ProcessBranch_success[OF run merged no_match git_ok create_ok] show ?thesis
    by (simp add: exec_success_service test_cfg_fields show_int_123 test_pr_fields)
qed

text \<open>
  C2: whenever a run got a merged pull request, no existing pull request, success from
  the config, fetch and checkout commands and a failure from the cherry-pick command, the
  command \<^verbatim>\<open>cherry-pick --abort\<close> is the next event after the failed cherry-pick and the
  last event of the run, whatever the abort itself returned; no push command and no
  \<^verbatim>\<open>CreatePR\<close> call was issued, and the \<^verbatim>\<open>Result\<close> has \<^verbatim>\<open>Success\<close> false and a non-nil
  \<^verbatim>\<open>Error\<close> that wraps the error of the cherry-pick.
\<close>

theorem ProcessBranch_cherry_pick_fails:
  assumes run: "exec sv (ProcessBranch cfg targetBranch) w = (out, w', tr)"
    and merged: "\<forall>r \<in> set (GetPR_replies tr). \<exists>pr. r = (Some pr, None) \<and> Merged pr = Some True"
    and no_match: "\<forall>r \<in> set (FindExistingPR_replies tr). fst r = None"
    and setup_ok: "\<forall>(args, r) \<in> set (git_runs tr).
        hd args \<in> {''config'', ''fetch'', ''checkout''} \<longrightarrow> r = None"
    and pick_fails: "\<forall>(args, r) \<in> set (git_runs tr).
        take 3 args = [''cherry-pick'', ''-m'', ''1''] \<longrightarrow> r \<noteq> None"
  shows "\<exists>pr e a before.
     GetPR_replies tr = [(Some pr, None)] \<and>
     tr = before @ [EvRun [''cherry-pick'', ''-m'', ''1'', GetMergeCommitSHA (Some pr)] (Some e),
                    EvRun [''cherry-pick'', ''--abort''] a] \<and>
     git_runs tr =
       [([''config'', ''user.name'', GitUserName cfg], None),
        ([''config'', ''user.email'', GitUserEmail cfg], None),
        ([''fetch'', ''origin'', targetBranch], None),
        ([''checkout'', ''-b'', ''cherry-pick-'' @ show_int (PRNumber cfg) @ ''-to-'' @ targetBranch,
          ''origin/'' @ targetBranch], None),
        ([''cherry-pick'', ''-m'', ''1'', GetMergeCommitSHA (Some pr)], Some e),
        ([''cherry-pick'', ''--abort''], a)] \<and>
     ''push'' \<notin> set (map hd (git_commands tr)) \<and>
     CreatePR_replies tr = [] \<and>
     out = Returned \<lparr>Branch = targetBranch, Success = False, ExistingPR = None, NewPR = None,
       Error = Some (Err (''cherry-pick failed due to conflicts or other errors: '' @ Error_text e)),
       ErrorMessage = ''cherry-pick failed due to conflicts or other errors: '' @ Error_text e\<rparr>"
  using run
proof (cases rule: ProcessBranch_cases)
  case (git_error p ferr w2 gtr e)
  from git_error(3) setup_ok pick_fails
  have ok: "\<forall>(args, r) \<in> set (git_runs gtr).
        hd args \<in> {''config'', ''fetch'', ''checkout''} \<longrightarrow> r = None"
    and fails: "\<forall>(args, r) \<in> set (git_runs gtr).
        take 3 args = [''cherry-pick'', ''-m'', ''1''] \<longrightarrow> r \<noteq> None"
    by (simp_all add: observers_append observers_warning_events)
  from performGitOperations_no_github[OF git_error(2)]
  have none: "GetPR_replies gtr = []" "CreatePR_replies gtr = []" by simp_all
  have obs: "GetPR_replies tr = [(Some p, None)]" "CreatePR_replies tr = []"
    "git_runs tr = git_runs gtr" "git_commands tr = git_commands gtr"
    unfolding git_error(3) by (simp_all add: observers_append observers_warning_events none)
  from git_error(2) show ?thesis
  proof (cases rule: performGitOperations_cases)
    case (cherry_pick_fails e' a)
    have "tr = ([EvLog ([CHR 0xF0, CHR 0x9F, CHR 0xA4, CHR 0x96] @
             '' Starting cherry-pick to '' @ targetBranch @ ''...''),
           EvGetPR (RepoOwner cfg) (RepoName cfg) (PRNumber cfg) (Some p, None),
           EvLog (''Found merge commit: '' @ GetMergeCommitSHA (Some p)),
           EvFindExistingPR (RepoOwner cfg) (RepoName cfg) (cherryPickBranch cfg targetBranch)
             targetBranch (None, ferr)] @
          warning_events (\<lambda>e. ''Warning: error checking for existing PR: '' @ Error_text e) ferr @
          butlast (butlast gtr)) @
          [EvRun [''cherry-pick'', ''-m'', ''1'', GetMergeCommitSHA (Some p)] (Some e'),
           EvRun [''cherry-pick'', ''--abort''] a]"
      unfolding git_error(3) cherry_pick_fails(1) by simp
    with obs cherry_pick_fails git_error(4) show ?thesis
      by (simp add: cherryPickBranch_def Errorf_w_def)
  qed (use ok fails in simp_all)
next
  case (CreatePR_error p ferr w2 w3 gtr x e)
  from CreatePR_error(3) pick_fails
  have fails: "\<forall>(args, r) \<in> set (git_runs gtr).
        take 3 args = [''cherry-pick'', ''-m'', ''1''] \<longrightarrow> r \<noteq> None"
    by (simp_all add: observers_append observers_warning_events)
  from CreatePR_error(2) show ?thesis
    by (cases rule: performGitOperations_cases) (use fails in simp_all)
next
  case (created p ferr w2 w3 gtr x)
  from created(3) pick_fails
  have fails: "\<forall>(args, r) \<in> set (git_runs gtr).
        take 3 args = [''cherry-pick'', ''-m'', ''1''] \<longrightarrow> r \<noteq> None"
    by (simp_all add: observers_append observers_warning_events)
  from created(2) show ?thesis
    by (cases rule: performGitOperations_cases) (use fails in simp_all)
qed (use merged no_match in auto)

theorem ProcessBranch_cherry_pick_fails_witness:
  "\<exists>out w' tr before.
     exec conflict_service (ProcessBranch test_cfg ''release'') [] = (out, w', tr) \<and>
     tr = before @ [EvRun [''cherry-pick'', ''-m'', ''1'', ''abc123'']
                      (Some (Err ''cherry-pick failed: conflicts'')),
                    EvRun [''cherry-pick'', ''--abort''] (Some (Err ''cherry-pick failed: conflicts''))] \<and>
     git_commands tr =
       [[''config'', ''user.name'', ''Test Bot''],
        [''config'', ''user.email'', ''bot@test.com''],
        [''fetch'', ''origin'', ''release''],
        [''checkout'', ''-b'', ''cherry-pick-123-to-release'', ''origin/release''],
        [''cherry-pick'', ''-m'', ''1'', ''abc123''],
        [''cherry-pick'', ''--abort'']] \<and>
     CreatePR_replies tr = [] \<and>
     out = Returned \<lparr>Branch = ''release'', Success = False, ExistingPR = None, NewPR = None,
       Error = Some (Err
         ''cherry-pick failed due to conflicts or other errors: cherry-pick failed: conflicts''),
       ErrorMessage =
         ''cherry-pick failed due to conflicts or other errors: cherry-pick failed: conflicts''\<rparr>"
proof -
  let ?run = "exec conflict_service (ProcessBranch test_cfg ''release'') []"
  have run: "?run = (fst ?run, fst (snd ?run), snd (snd ?run))"
    by simp
  have merged: "\<forall>r \<in> set (GetPR_replies (snd (snd ?run))).
      \<exists>pr. r = (Some pr, None) \<and> Merged pr = Some True"
    and no_match: "\<forall>r \<in> set (FindExistingPR_replies (snd (snd ?run))). fst r = None"
    and setup_ok: "\<forall>(args, r) \<in> set (git_runs (snd (snd ?run))).
        hd args \<in> {''config'', ''fetch'', ''checkout''} \<longrightarrow> r = None"
    and pick_fails: "\<forall>(args, r) \<in> set (git_runs (snd (snd ?run))).
        take 3 args = [''cherry-pick'', ''-m'', ''1''] \<longrightarrow> r \<noteq> None"
    by (simp_all add: exec_conflict_service test_pr_fields)
  from ProcessBranch_cherry_pick_fails[OF run merged no_match setup_ok pick_fails]
  obtain pr e a before where
    "snd (snd ?run) = before @ [EvRun [''cherry-pick'', ''-m'', ''1'', GetMergeCommitSHA (Some pr)] (Some e),
                    EvRun [''cherry-pick'', ''--abort''] a]"
    by blast
  then have "\<exists>before. snd (snd ?run) = before @ [last (butlast (snd (snd ?run))), last (snd (snd ?run))]"
    by (auto simp: butlast_append)
  then show ?thesis
    by (simp add: exec_conflict_service)
qed

text \<open>
  C3: whenever \<^verbatim>\<open>GetPR\<close> returned a pull request with a nil error and the pull request is
  not merged (\<^verbatim>\<open>Merged\<close> nil or false), \<^verbatim>\<open>ProcessBranch\<close> returns a \<^verbatim>\<open>Result\<close> with
  \<^verbatim>\<open>Success\<close> false and a non-empty \<^verbatim>\<open>ErrorMessage\<close>, and the run issued no git command,
  no \<^verbatim>\<open>FindExistingPR\<close> call and no \<^verbatim>\<open>CreatePR\<close> call.
\<close>

theorem ProcessBranch_not_merged:
  assumes run: "exec sv (ProcessBranch cfg targetBranch) w = (out, w', tr)"
    and not_merged:
      "\<forall>r \<in> set (GetPR_replies tr). \<exists>pr. r = (Some pr, None) \<and> Merged pr \<noteq> Some True"
  shows "\<exists>result. out = Returned result \<and> Branch result = targetBranch \<and>
           \<not> Success result \<and> ErrorMessage result \<noteq> [] \<and>
           git_commands tr = [] \<and> FindExistingPR_replies tr = [] \<and> CreatePR_replies tr = []"
  using run
  by (cases rule: ProcessBranch_cases) (use not_merged in auto)

theorem ProcessBranch_not_merged_witness:
  "\<exists>out w' tr. exec not_merged_service (ProcessBranch test_cfg ''main'') [] = (out, w', tr) \<and>
     out = Returned \<lparr>Branch = ''main'', Success = False, ExistingPR = None, NewPR = None,
       Error = None,
       ErrorMessage = ''PR #123 is not merged yet (state: open). Cherry-pick requires merged PRs.''\<rparr> \<and>
     w' = [] \<and> git_commands tr = [] \<and> FindExistingPR_replies tr = [] \<and> CreatePR_replies tr = []"
proof -
  let ?run = "exec not_merged_service (ProcessBranch test_cfg ''main'') []"
  have run: "?run = (fst ?run, fst (snd ?run), snd (snd ?run))"
    by simp
  have not_merged: "\<forall>r \<in> set (GetPR_replies (snd (snd ?run))).
      \<exists>pr. r = (Some pr, None) \<and> Merged pr \<noteq> Some True"
    by (simp add: exec_not_merged_service test_pr_fields)
  from ProcessBranch_not_merged[OF run not_merged] show ?thesis
    by (simp add: exec_not_merged_service)
qed

text \<open>
  C4: whenever \<^verbatim>\<open>GetPR\<close> returned a merged pull request and \<^verbatim>\<open>FindExistingPR\<close> returned
  a pull request, \<^verbatim>\<open>ProcessBranch\<close> returns a \<^verbatim>\<open>Result\<close> with \<^verbatim>\<open>Success\<close> true and
  \<^verbatim>\<open>ExistingPR\<close> that pull request, and the run issued no git command and no
  \<^verbatim>\<open>CreatePR\<close> call.
\<close>

theorem ProcessBranch_existing:
  assumes run: "exec sv (ProcessBranch cfg targetBranch) w = (out, w', tr)"
    and merged: "\<forall>r \<in> set (GetPR_replies tr). \<exists>pr. r = (Some pr, None) \<and> Merged pr = Some True"
    and match: "\<forall>r \<in> set (FindExistingPR_replies tr). fst r \<noteq> None"
  shows "\<exists>existingPR ferr.
     FindExistingPR_replies tr = [(Some existingPR, ferr)] \<and>
     out = Returned \<lparr>Branch = targetBranch, Success = True, ExistingPR = Some existingPR,
       NewPR = None, Error = None, ErrorMessage = []\<rparr> \<and>
     git_commands tr = [] \<and> CreatePR_replies tr = []"
  using run
proof (cases rule: ProcessBranch_cases)
  case (existing p x ferr)
  then show ?thesis
    by (simp add: observers_append observers_warning_events)
next
  case (git_error p ferr w2 gtr e)
  from git_error(3) match show ?thesis by simp
next
  case (CreatePR_error p ferr w2 w3 gtr x e)
  from CreatePR_error(3) match show ?thesis by simp
next
  case (created p ferr w2 w3 gtr x)
  from created(3) match show ?thesis by simp
qed (use merged in auto)

theorem ProcessBranch_existing_witness:
  "\<exists>out w' tr. exec existing_service (ProcessBranch test_cfg ''release'') [] = (out, w', tr) \<and>
     FindExistingPR_replies tr = [(Some existing_pr, None)] \<and>
     out = Returned \<lparr>Branch = ''release'', Success = True, ExistingPR = Some existing_pr,
       NewPR = None, Error = None, ErrorMessage = []\<rparr> \<and>
     w' = [] \<and> git_commands tr = [] \<and> CreatePR_replies tr = []"
proof -
  let ?run = "exec existing_service (ProcessBranch test_cfg ''release'') []"
  have run: "?run = (fst ?run, fst (snd ?run), snd (snd ?run))"
    by simp
  have merged: "\<forall>r \<in> set (GetPR_replies (snd (snd ?run))).
      \<exists>pr. r = (Some pr, None) \<and> Merged pr = Some True"
    and match: "\<forall>r \<in> set (FindExistingPR_replies (snd (snd ?run))). fst r \<noteq> None"
    by (simp_all add: exec_existing_service test_pr_fields)
  from ProcessBranch_existing[OF run merged match] show ?thesis
    by (simp add: exec_existing_service)
qed

text \<open>
  C5 fails as stated: the goroutines share the git runner, and nothing in
  \<^verbatim>\<open>ProcessBranches\<close> keeps the git commands of one goroutine apart from those of another.
  Over one working tree, with the first goroutine stopped on the conflict of its
  cherry-pick while the second one runs, the checkout of the second is refused: the result
  for \<^verbatim>\<open>release\<close> is a failure.  \<^verbatim>\<open>ProcessBranch\<close> for \<^verbatim>\<open>release\<close> alone, from the same
  tree, succeeds, and so does the goroutine for \<^verbatim>\<open>release\<close> under the same schedule beside
  a branch whose cherry-pick does not fail.  The schedule gives each goroutine 18 steps,
  and \<^verbatim>\<open>GetPR\<close> replied with a pull request each time.
\<close>

theorem ProcessBranches_not_isolated:
  "fst (ProcessBranches one_working_tree_service conflicting_cfg during_cherry_pick clean_tree) =
     Some (Returned
       [Some \<lparr>Branch = ''conflicting'', Success = False, ExistingPR = None, NewPR = None,
          Error = Some (Err
            ''cherry-pick failed due to conflicts or other errors: error: could not apply abc123''),
          ErrorMessage =
            ''cherry-pick failed due to conflicts or other errors: error: could not apply abc123''\<rparr>,
        Some \<lparr>Branch = ''release'', Success = False, ExistingPR = None, NewPR = None,
          Error = Some (Err
            ''failed to create cherry-pick branch: error: you need to resolve your current index first''),
          ErrorMessage =
            ''failed to create cherry-pick branch: error: you need to resolve your current index first''\<rparr>]) \<and>
   fst (exec one_working_tree_service (ProcessBranch conflicting_cfg ''release'') clean_tree) =
     Returned \<lparr>Branch = ''release'', Success = True, ExistingPR = None, NewPR = Some new_pr,
       Error = None, ErrorMessage = []\<rparr> \<and>
   fst (ProcessBranches one_working_tree_service stable_cfg during_cherry_pick clean_tree) =
     Some (Returned
       [Some \<lparr>Branch = ''stable'', Success = True, ExistingPR = None, NewPR = Some new_pr,
          Error = None, ErrorMessage = []\<rparr>,
        Some \<lparr>Branch = ''release'', Success = True, ExistingPR = None, NewPR = Some new_pr,
          Error = None, ErrorMessage = []\<rparr>]) \<and>
   count_list during_cherry_pick 0 = 18 \<and> count_list during_cherry_pick 1 = 18 \<and>
   (None, None) \<notin> set (GetPR_replies (map snd (snd (snd
      (ProcessBranches one_working_tree_service conflicting_cfg during_cherry_pick clean_tree)))))"
proof -
  have "count_list during_cherry_pick 0 = 18" "count_list during_cherry_pick 1 = 18"
    by (simp_all add: during_cherry_pick_def)
  then show ?thesis
    by (simp add: ProcessBranches_conflicting ProcessBranch_release_alone ProcessBranches_stable)
qed

text \<open>
  C5, amended: for every schedule that gives each goroutine at least 18 steps (17 calls at
  most and the store), so that each goroutine runs to its end, and every run in which
  \<^verbatim>\<open>GetPR\<close> never replied with a nil pull request and a nil error, \<^verbatim>\<open>ProcessBranches\<close>
  returns a list of as many results as there are branches, none of them nil; the result
  at \<open>i\<close> has the branch at \<open>i\<close> as its \<^verbatim>\<open>Branch\<close> and is what \<^verbatim>\<open>ProcessBranch\<close> for that
  branch returns on the replies that goroutine \<open>i\<close> itself got, in whatever order the
  goroutines took their steps and ended.  For a stateless service, where no call can
  change the reply to another, it is what \<^verbatim>\<open>ProcessBranch\<close> for that branch returns when
  run alone, from any state of the world: there the failure of one branch does not change
  the result of another.
\<close>

theorem ProcessBranches_positional:
  assumes run: "ProcessBranches s cfg schedule w = (out, w', tr)"
    and fair: "\<forall>i < length (Branches cfg). 18 \<le> count_list schedule i"
    and conventional: "(None, None) \<notin> set (GetPR_replies (map snd tr))"
  shows "\<exists>results. out = Some (Returned results) \<and> length results = length (Branches cfg) \<and>
     (\<forall>i < length (Branches cfg). \<exists>result.
        results ! i = Some result \<and> Branch result = Branches cfg ! i \<and>
        replay (ProcessBranch cfg (Branches cfg ! i)) (events_of i tr) = Some (Returned result) \<and>
        (stateless s \<longrightarrow>
           (\<forall>w0. fst (exec s (ProcessBranch cfg (Branches cfg ! i)) w0) = Returned result)))"
proof -
  let ?gs = "map (\<lambda>branch. Running (ProcessBranch cfg branch)) (Branches cfg)"
  let ?results = "replicate (length (Branches cfg)) (None :: Result option)"
  obtain gs' results' where
    pool: "run_goroutines s schedule (?gs, ?results, w) = ((gs', results', w'), tr)"
    and out: "out = (if Running Panic \<in> set gs' then Some Panicked
            else if list_all finished gs' then Some (Returned results') else None)"
    using run unfolding ProcessBranches_def Let_def by (auto split: prod.splits)
  have budget: "\<forall>i < length ?gs. budget 18 (?gs ! i)"
    using terminates_in_mono[OF ProcessBranch_terminates, of 17] by simp
  from fair have "\<forall>i < length ?gs. 18 \<le> count_list schedule i" by simp
  from run_goroutines_all_done[OF pool budget this conventional]
  have finished: "\<forall>i < length (Branches cfg). gs' ! i = Done" by simp
  from run_goroutines_reaches[OF pool]
  have len: "length gs' = length (Branches cfg)" "length results' = length (Branches cfg)"
    and reach: "\<And>i. i < length (Branches cfg) \<Longrightarrow>
      reaches (Running (ProcessBranch cfg (Branches cfg ! i))) None (events_of i tr)
        (gs' ! i) (results' ! i)"
    by simp_all
  from finished len(1) have all: "\<forall>g \<in> set gs'. g = Done" by (auto simp: in_set_conv_nth)
  then have "Running Panic \<notin> set gs'" "list_all finished gs'"
    by (auto simp: list_all_iff)
  with out have o: "out = Some (Returned results')" by simp
  have "\<exists>result. results' ! i = Some result \<and> Branch result = Branches cfg ! i \<and>
        replay (ProcessBranch cfg (Branches cfg ! i)) (events_of i tr) = Some (Returned result) \<and>
        (stateless s \<longrightarrow>
           (\<forall>w0. fst (exec s (ProcessBranch cfg (Branches cfg ! i)) w0) = Returned result))"
    if i: "i < length (Branches cfg)" for i
  proof -
    from reach[OF i] finished i obtain x where
      x: "residual (ProcessBranch cfg (Branches cfg ! i)) (events_of i tr) = Some (Return x)"
        "results' ! i = Some x"
      by (auto simp: reaches_def)
    from stateless_residual_exec[OF _ x(1) run_goroutines_answered[OF pool]]
    have "stateless s \<longrightarrow>
           (\<forall>w0. fst (exec s (ProcessBranch cfg (Branches cfg ! i)) w0) = Returned x)"
      by simp
    with ProcessBranch_Branch[OF residual_exec_scripted[OF x(1)]] x show ?thesis
      by (simp add: replay_Returned)
  qed
  with o len show ?thesis by simp
qed

theorem ProcessBranches_positional_witness:
  "\<exists>w' tr.
     ProcessBranches one_fetch_fails_service two_branches_cfg alternating [] =
       (Some (Returned [Some nonexistent_result, Some release_result]), w', tr) \<and>
     Branch nonexistent_result = ''nonexistent'' \<and> Branch release_result = ''release'' \<and>
     replay (ProcessBranch two_branches_cfg ''nonexistent'') (events_of 0 tr) =
       Some (Returned nonexistent_result) \<and>
     replay (ProcessBranch two_branches_cfg ''release'') (events_of 1 tr) =
       Some (Returned release_result) \<and>
     fst (exec one_fetch_fails_service (ProcessBranch two_branches_cfg ''nonexistent'') []) =
       Returned nonexistent_result \<and>
     fst (exec one_fetch_fails_service (ProcessBranch two_branches_cfg ''release'') []) =
       Returned release_result"
proof -
  let ?run = "ProcessBranches one_fetch_fails_service two_branches_cfg alternating []"
  note ev = ProcessBranches_one_fetch_fails
  have run: "?run = (fst ?run, fst (snd ?run), snd (snd ?run))" by simp
  have fair: "\<forall>i < length (Branches two_branches_cfg). 18 \<le> count_list alternating i"
    by (auto simp: two_branches_cfg_fields alternating_def less_Suc_eq numeral_2_eq_2)
  have conventional: "(None, None) \<notin> set (GetPR_replies (map snd (snd (snd ?run))))"
    by (simp add: ev)
  have st: "stateless one_fetch_fails_service"
    by (simp add: stateless_def one_fetch_fails_service_def NewService_def mockGitHubClient_def
        mockGitRunner_def)
  from ProcessBranches_positional[OF run fair conventional] obtain results where
    out: "fst ?run = Some (Returned results)"
    and each: "\<And>i. i < length (Branches two_branches_cfg) \<Longrightarrow> \<exists>result.
        results ! i = Some result \<and> Branch result = Branches two_branches_cfg ! i \<and>
        replay (ProcessBranch two_branches_cfg (Branches two_branches_cfg ! i))
          (events_of i (snd (snd ?run))) = Some (Returned result) \<and>
        (stateless one_fetch_fails_service \<longrightarrow>
           (\<forall>w0. fst (exec one_fetch_fails_service
              (ProcessBranch two_branches_cfg (Branches two_branches_cfg ! i)) w0) = Returned result))"
    by (elim exE conjE) simp
  from out have results: "results = [Some nonexistent_result, Some release_result]"
    by (simp add: ev nonexistent_result_def release_result_def)
  from each[of 0] st results have r0:
    "Branch nonexistent_result = ''nonexistent''"
    "replay (ProcessBranch two_branches_cfg ''nonexistent'') (events_of 0 (snd (snd ?run))) =
       Some (Returned nonexistent_result)"
    "fst (exec one_fetch_fails_service (ProcessBranch two_branches_cfg ''nonexistent'') []) =
       Returned nonexistent_result"
    by (simp_all add: two_branches_cfg_fields)
  from each[of 1] st results have r1:
    "Branch release_result = ''release''"
    "replay (ProcessBranch two_branches_cfg ''release'') (events_of 1 (snd (snd ?run))) =
       Some (Returned release_result)"
    "fst (exec one_fetch_fails_service (ProcessBranch two_branches_cfg ''release'') []) =
       Returned release_result"
    by (simp_all add: two_branches_cfg_fields)
  have "?run = (Some (Returned [Some nonexistent_result, Some release_result]),
      fst (snd ?run), snd (snd ?run))"
    using out results by (simp add: prod_eq_iff)
  with r0 r1 show ?thesis
    by (intro exI[of _ "fst (snd ?run)"] exI[of _ "snd (snd ?run)"] conjI)
qed

lemma lookup_error_shape:
  assumes "tr = [a, b, c, d] @ warning_events l (Some e) @ gtr @ suffix"
    and "gtr = g # rest"
  shows "\<exists>before r. tr = before @ [d, EvLog (l e), g] @ r"
proof -
  from assms have "tr = [a, b, c] @ [d, EvLog (l e), g] @ (rest @ suffix)" by simp
  then show ?thesis by (intro exI)
qed

text \<open>
  C6: whenever \<^verbatim>\<open>GetPR\<close> returned a merged pull request and \<^verbatim>\<open>FindExistingPR\<close> returned
  an error and no pull request, the run does not end at the lookup: the lookup is followed
  by the logged warning and then by the first git command; and if every git command of
  the run succeeded, \<^verbatim>\<open>CreatePR\<close> was called once, and when it returned a pull request with
  a nil error the \<^verbatim>\<open>Result\<close> is the success with that pull request as \<^verbatim>\<open>NewPR\<close>.
\<close>

theorem ProcessBranch_lookup_error:
  assumes run: "exec sv (ProcessBranch cfg targetBranch) w = (out, w', tr)"
    and merged: "\<forall>r \<in> set (GetPR_replies tr). \<exists>pr. r = (Some pr, None) \<and> Merged pr = Some True"
    and lookup_error: "\<forall>r \<in> set (FindExistingPR_replies tr). r = (None, Some e)"
  shows "(\<exists>r before rest.
     tr = before @
       [EvFindExistingPR (RepoOwner cfg) (RepoName cfg) (cherryPickBranch cfg targetBranch)
          targetBranch (None, Some e),
        EvLog (''Warning: error checking for existing PR: '' @ Error_text e),
        EvRun [''config'', ''user.name'', GitUserName cfg] r] @ rest) \<and>
     ((\<forall>(args, r) \<in> set (git_runs tr). r = None) \<longrightarrow>
        (\<exists>created. CreatePR_replies tr = [created] \<and>
           (\<forall>newPR. created = (Some newPR, None) \<longrightarrow>
              out = Returned \<lparr>Branch = targetBranch, Success = True, ExistingPR = None,
                NewPR = Some newPR, Error = None, ErrorMessage = []\<rparr>)))"
  using run
proof (cases rule: ProcessBranch_cases)
  case (existing p x ferr)
  from existing(2) lookup_error show ?thesis by simp
next
  case (git_error p ferr w2 gtr e')
  from git_error(3) lookup_error have ferr: "ferr = Some e" by simp
  from performGitOperations_first[OF git_error(2)] obtain r rest where
    gtr: "gtr = EvRun [''config'', ''user.name'', GitUserName cfg] r # rest"
    by (elim exE)
  from git_error(3) have "tr = [EvLog ([CHR 0xF0, CHR 0x9F, CHR 0xA4, CHR 0x96] @
        '' Starting cherry-pick to '' @ targetBranch @ ''...''),
      EvGetPR (RepoOwner cfg) (RepoName cfg) (PRNumber cfg) (Some p, None),
      EvLog (''Found merge commit: '' @ GetMergeCommitSHA (Some p)),
      EvFindExistingPR (RepoOwner cfg) (RepoName cfg) (cherryPickBranch cfg targetBranch)
        targetBranch (None, Some e)] @
      warning_events (\<lambda>e. ''Warning: error checking for existing PR: '' @ Error_text e) (Some e) @
      gtr @ []"
    unfolding ferr by simp
  from lookup_error_shape[OF this gtr] have shape: "\<exists>r before rest.
     tr = before @
       [EvFindExistingPR (RepoOwner cfg) (RepoName cfg) (cherryPickBranch cfg targetBranch)
          targetBranch (None, Some e),
        EvLog (''Warning: error checking for existing PR: '' @ Error_text e),
        EvRun [''config'', ''user.name'', GitUserName cfg] r] @ rest"
    by (intro exI[of _ r])
  from performGitOperations_error[OF git_error(2)] obtain args e'' where
    "(args, Some e'') \<in> set (git_runs gtr)" by (elim exE)
  then have "(args, Some e'') \<in> set (git_runs tr)"
    unfolding git_error(3) by (simp add: observers_append)
  then have "\<not> (\<forall>(args, r) \<in> set (git_runs tr). r = None)"
    by (intro notI) (drule (1) bspec, simp)
  with shape show ?thesis by (intro conjI impI) (assumption, erule (1) notE)
next
  case (CreatePR_error p ferr w2 w3 gtr x e')
  from CreatePR_error(3) lookup_error have ferr: "ferr = Some e" by simp
  from performGitOperations_first[OF CreatePR_error(2)] obtain r rest where
    gtr: "gtr = EvRun [''config'', ''user.name'', GitUserName cfg] r # rest"
    by (elim exE)
  from lookup_error_shape[OF CreatePR_error(3)[unfolded ferr] gtr] have shape: "\<exists>r before rest.
     tr = before @
       [EvFindExistingPR (RepoOwner cfg) (RepoName cfg) (cherryPickBranch cfg targetBranch)
          targetBranch (None, Some e),
        EvLog (''Warning: error checking for existing PR: '' @ Error_text e),
        EvRun [''config'', ''user.name'', GitUserName cfg] r] @ rest"
    by (intro exI[of _ r])
  from performGitOperations_no_github[OF CreatePR_error(2)]
  have "CreatePR_replies tr = [(x, Some e')]"
    unfolding CreatePR_error(3) by (simp add: observers_append observers_warning_events)
  then have "\<exists>created. CreatePR_replies tr = [created] \<and>
           (\<forall>newPR. created = (Some newPR, None) \<longrightarrow>
              out = Returned \<lparr>Branch = targetBranch, Success = True, ExistingPR = None,
                NewPR = Some newPR, Error = None, ErrorMessage = []\<rparr>)"
    by simp
  with shape show ?thesis by (intro conjI impI)
next
  case (created p ferr w2 w3 gtr x)
  from created(3) lookup_error have ferr: "ferr = Some e" by simp
  from performGitOperations_first[OF created(2)] obtain r rest where
    gtr: "gtr = EvRun [''config'', ''user.name'', GitUserName cfg] r # rest"
    by (elim exE)
  from lookup_error_shape[OF created(3)[unfolded ferr] gtr] have shape: "\<exists>r before rest.
     tr = before @
       [EvFindExistingPR (RepoOwner cfg) (RepoName cfg) (cherryPickBranch cfg targetBranch)
          targetBranch (None, Some e),
        EvLog (''Warning: error checking for existing PR: '' @ Error_text e),
        EvRun [''config'', ''user.name'', GitUserName cfg] r] @ rest"
    by (intro exI[of _ r])
  from performGitOperations_no_github[OF created(2)]
  have "CreatePR_replies tr = [(x, None)]"
    unfolding created(3) by (simp add: observers_append observers_warning_events)
  with created(4) have "\<exists>created. CreatePR_replies tr = [created] \<and>
           (\<forall>newPR. created = (Some newPR, None) \<longrightarrow>
              out = Returned \<lparr>Branch = targetBranch, Success = True, ExistingPR = None,
                NewPR = Some newPR, Error = None, ErrorMessage = []\<rparr>)"
    by simp
  with shape show ?thesis by (intro conjI impI)
qed (use merged in auto)

theorem ProcessBranch_lookup_error_witness:
  "\<exists>out w' tr before rest.
     exec lookup_error_service (ProcessBranch test_cfg ''release'') [] = (out, w', tr) \<and>
     tr = before @
       [EvFindExistingPR ''owner'' ''repo'' ''cherry-pick-123-to-release'' ''release''
          (None, Some (Err ''502 Bad Gateway'')),
        EvLog ''Warning: error checking for existing PR: 502 Bad Gateway'',
        EvRun [''config'', ''user.name'', ''Test Bot''] None] @ rest \<and>
     CreatePR_replies tr = [(Some new_pr, None)] \<and>
     out = Returned \<lparr>Branch = ''release'', Success = True, ExistingPR = None,
       NewPR = Some new_pr, Error = None, ErrorMessage = []\<rparr>"
proof -
  let ?run = "exec lookup_error_service (ProcessBranch test_cfg ''release'') []"
  have run: "?run = (fst ?run, fst (snd ?run), snd (snd ?run))"
    by simp
  have merged: "\<forall>r \<in> set (GetPR_replies (snd (snd ?run))).
      \<exists>pr. r = (Some pr, None) \<and> Merged pr = Some True"
    and lookup_error: "\<forall>r \<in> set (FindExistingPR_replies (snd (snd ?run))).
      r = (None, Some (Err ''502 Bad Gateway''))"
    and git_ok: "\<forall>(args, r) \<in> set (git_runs (snd (snd ?run))). r = None"
    and created: "CreatePR_replies (snd (snd ?run)) = [(Some new_pr, None)]"
    and out: "fst ?run = Returned \<lparr>Branch = ''release'', Success = True, ExistingPR = None,
       NewPR = Some new_pr, Error = None, ErrorMessage = []\<rparr>"
    by (simp_all add: exec_lookup_error_service test_pr_fields)
  from ProcessBranch_lookup_error[OF run merged lookup_error]
  obtain r before rest where tr: "snd (snd ?run) = before @
       [EvFindExistingPR (RepoOwner test_cfg) (RepoName test_cfg)
          (cherryPickBranch test_cfg ''release'') ''release'' (None, Some (Err ''502 Bad Gateway'')),
        EvLog (''Warning: error checking for existing PR: '' @ Error_text (Err ''502 Bad Gateway'')),
        EvRun [''config'', ''user.name'', GitUserName test_cfg] r] @ rest"
    by (elim conjE exE)
  have "([''config'', ''user.name'', GitUserName test_cfg], r) \<in> set (git_runs (snd (snd ?run)))"
    by (subst tr) (simp add: observers_append)
  with git_ok have r: "r = None"
    by (elim ballE[where x = "([''config'', ''user.name'', GitUserName test_cfg], r)"]) simp_all
  have "snd (snd ?run) = before @
       [EvFindExistingPR ''owner'' ''repo'' ''cherry-pick-123-to-release'' ''release''
          (None, Some (Err ''502 Bad Gateway'')),
        EvLog ''Warning: error checking for existing PR: 502 Bad Gateway'',
        EvRun [''config'', ''user.name'', ''Test Bot''] None] @ rest"
    by (subst tr) (simp add: r test_cfg_fields cherryPickBranch_def show_int_123)
  with run created out show ?thesis
    by (intro exI[of _ "fst ?run"] exI[of _ "fst (snd ?run)"] exI[of _ "snd (snd ?run)"]
        exI[of _ before] exI[of _ rest] conjI)
qed

text \<open>
  C7 fails as stated: for a pull request that is not merged, \<^verbatim>\<open>ProcessBranch\<close> sets only
  \<^verbatim>\<open>ErrorMessage\<close>, so none of \<^verbatim>\<open>ExistingPR\<close>, \<^verbatim>\<open>NewPR\<close>, \<^verbatim>\<open>Error\<close> is populated.
\<close>

theorem ProcessBranch_not_merged_not_well_formed:
  "exec not_merged_service (ProcessBranch test_cfg ''main'') [] =
    (Returned \<lparr>Branch = ''main'', Success = False, ExistingPR = None, NewPR = None, Error = None,
       ErrorMessage = ''PR #123 is not merged yet (state: open). Cherry-pick requires merged PRs.''\<rparr>,
     [],
     [EvLog ([CHR 0xF0, CHR 0x9F, CHR 0xA4, CHR 0x96] @ '' Starting cherry-pick to main...''),
      EvGetPR ''owner'' ''repo'' 123 (Some open_pr, None)]) \<and>
   \<not> well_formed \<lparr>Branch = ''main'', Success = False, ExistingPR = None, NewPR = None, Error = None,
       ErrorMessage = ''PR #123 is not merged yet (state: open). Cherry-pick requires merged PRs.''\<rparr>"
  by (simp add: exec_not_merged_service well_formed_def populated_def)

text \<open>
  C7, amended: when the client never returns a nil pull request together with a nil
  error from \<^verbatim>\<open>GetPR\<close> or \<^verbatim>\<open>CreatePR\<close>, \<^verbatim>\<open>ProcessBranch\<close> returns a \<^verbatim>\<open>Result\<close> in
  which at most one of \<^verbatim>\<open>ExistingPR\<close>, \<^verbatim>\<open>NewPR\<close>, \<^verbatim>\<open>Error\<close> is populated and
  \<^verbatim>\<open>Success\<close> is true iff \<^verbatim>\<open>ExistingPR\<close> or \<^verbatim>\<open>NewPR\<close> is populated; none of the three
  is populated exactly when the pull request was reported not merged, and then
  \<^verbatim>\<open>ErrorMessage\<close> is non-empty.
\<close>

theorem ProcessBranch_result_shape:
  assumes run: "exec sv (ProcessBranch cfg targetBranch) w = (out, w', tr)"
    and get_conventional: "(None, None) \<notin> set (GetPR_replies tr)"
    and create_conventional: "(None, None) \<notin> set (CreatePR_replies tr)"
  shows "\<exists>result. out = Returned result \<and> Branch result = targetBranch \<and>
     populated result \<le> 1 \<and>
     (Success result \<longleftrightarrow> ExistingPR result \<noteq> None \<or> NewPR result \<noteq> None) \<and>
     (populated result = 0 \<longleftrightarrow>
        (\<exists>pr. GetPR_replies tr = [(Some pr, None)] \<and> Merged pr \<noteq> Some True)) \<and>
     (populated result = 0 \<longrightarrow> ErrorMessage result \<noteq> [])"
  using run
proof (cases rule: ProcessBranch_cases)
  case (GetPR_error pr e)
  then show ?thesis by (simp add: populated_def)
next
  case GetPR_nil
  with get_conventional show ?thesis by simp
next
  case (not_merged p)
  then show ?thesis by (simp add: populated_def)
next
  case (existing p x ferr)
  then show ?thesis by (simp add: populated_def observers_append observers_warning_events)
next
  case (git_error p ferr w2 gtr e)
  then show ?thesis by (simp add: populated_def)
next
  case (CreatePR_error p ferr w2 w3 gtr x e)
  then show ?thesis by (simp add: populated_def)
next
  case (created p ferr w2 w3 gtr x)
  have "CreatePR_replies tr = CreatePR_replies gtr @ [(x, None)]"
    unfolding created(3) by (simp add: observers_append observers_warning_events)
  with create_conventional have "x \<noteq> None"
    by (cases x) simp_all
  with created(1,4) have result: "\<exists>result. out = Returned result \<and> Branch result = targetBranch \<and>
     populated result = 1 \<and> Success result \<and> NewPR result \<noteq> None"
    by (simp add: populated_def)
  have "GetPR_replies tr = (Some p, None) # GetPR_replies (tl (tl tr))"
    unfolding created(3) by simp
  with created(1) have "\<not> (\<exists>pr. GetPR_replies tr = [(Some pr, None)] \<and> Merged pr \<noteq> Some True)"
    by simp
  with result show ?thesis
    by (elim exE conjE) auto
qed

theorem ProcessBranch_result_shape_witness:
  "\<exists>out w' tr result.
     exec not_merged_service (ProcessBranch test_cfg ''main'') [] = (out, w', tr) \<and>
     out = Returned result \<and> Branch result = ''main'' \<and> populated result = 0 \<and>
     \<not> Success result \<and> ExistingPR result = None \<and> NewPR result = None \<and>
     GetPR_replies tr = [(Some open_pr, None)] \<and> ErrorMessage result \<noteq> []"
proof -
  let ?run = "exec not_merged_service (ProcessBranch test_cfg ''main'') []"
  have run: "?run = (fst ?run, fst (snd ?run), snd (snd ?run))"
    by simp
  have c: "(None, None) \<notin> set (GetPR_replies (snd (snd ?run)))"
    "(None, None) \<notin> set (CreatePR_replies (snd (snd ?run)))"
    by (simp_all add: exec_not_merged_service)
  from ProcessBranch_result_shape[OF run c] show ?thesis
    by (simp add: exec_not_merged_service populated_def)
qed

text \<open>
  C8: the last loop of \<^verbatim>\<open>run\<close> returns a non-nil error, so that the process exits
  non-zero, if and only if some \<^verbatim>\<open>Result\<close> has \<^verbatim>\<open>Success\<close> false and no \<^verbatim>\<open>ExistingPR\<close>;
  when every \<^verbatim>\<open>Result\<close> is a success or carries an existing pull request it returns nil.
\<close>

theorem run_results_error_iff:
  "run_results results \<noteq> None \<longleftrightarrow>
     (\<exists>result \<in> set results. \<not> Success result \<and> ExistingPR result = None)"
  by (induction results) auto

theorem run_results_error_iff_witness:
  "run_results
     [\<lparr>Branch = ''release-1.0'', Success = True, ExistingPR = None, NewPR = Some new_pr,
        Error = None, ErrorMessage = []\<rparr>,
      \<lparr>Branch = ''release-2.0'', Success = True, ExistingPR = Some existing_pr, NewPR = None,
        Error = None, ErrorMessage = []\<rparr>] = None \<and>
   run_results
     [\<lparr>Branch = ''release-1.0'', Success = True, ExistingPR = None, NewPR = Some new_pr,
        Error = None, ErrorMessage = []\<rparr>,
      \<lparr>Branch = ''main'', Success = False, ExistingPR = None, NewPR = None, Error = None,
        ErrorMessage = ''PR #123 is not merged yet (state: open). Cherry-pick requires merged PRs.''\<rparr>]
     = Some (Err ''cherry-pick to main failed'')"
  using run_results_error_iff[of
     "[\<lparr>Branch = ''release-1.0'', Success = True, ExistingPR = None, NewPR = Some new_pr,
        Error = None, ErrorMessage = []\<rparr>,
      \<lparr>Branch = ''release-2.0'', Success = True, ExistingPR = Some existing_pr, NewPR = None,
        Error = None, ErrorMessage = []\<rparr>]"]
  by simp

text \<open>
  C9: the head branch is \<^verbatim>\<open>cherry-pick-<number>-to-<target>\<close>, a name that determines the
  target for a fixed number; a run that got a merged pull request looks up exactly once,
  with that name as head and the target as base; through \<^verbatim>\<open>DefaultGitHubClient\<close> the list
  call is made with head \<^verbatim>\<open><owner>:<name>\<close> and base the target, and the lookup's reply
  is the first pull request of the list, whatever follows it; the run does not panic.
\<close>

theorem lookup_by_deterministic_branch:
  assumes run: "exec (NewService (NewDefaultGitHubClient client) runner)
      (ProcessBranch cfg targetBranch) w = (out, w', tr)"
    and merged: "\<forall>r \<in> set (GetPR_replies tr). \<exists>pr. r = (Some pr, None) \<and> Merged pr = Some True"
  shows
   "cherryPickBranch cfg targetBranch =
      ''cherry-pick-'' @ show_int (PRNumber cfg) @ ''-to-'' @ targetBranch \<and>
    (\<forall>other. (cherryPickBranch cfg other = cherryPickBranch cfg targetBranch) = (other = targetBranch)) \<and>
    FindExistingPR_calls tr =
      [(RepoOwner cfg, RepoName cfg,
        ''cherry-pick-'' @ show_int (PRNumber cfg) @ ''-to-'' @ targetBranch, targetBranch)] \<and>
    (case PullRequests_List client (RepoOwner cfg) (RepoName cfg)
            \<lparr>opt_State = ''all'',
             opt_Head = RepoOwner cfg @ '':'' @
               ''cherry-pick-'' @ show_int (PRNumber cfg) @ ''-to-'' @ targetBranch,
             opt_Base = targetBranch, PerPage = 1\<rparr>
            (snd (PullRequests_Get client (RepoOwner cfg) (RepoName cfg) (PRNumber cfg) w)) of
       ((prs, err), w2) \<Rightarrow>
         FindExistingPR_replies tr =
           [if err \<noteq> None then (None, err)
            else case prs of [] \<Rightarrow> (None, None) | first # others \<Rightarrow> (first, None)]) \<and>
    out \<noteq> Panicked"
proof -
  let ?sv = "NewService (NewDefaultGitHubClient client) runner"
  from ProcessBranch_reaches_lookup[OF run merged] obtain p reply rest where
    m: "Merged p = Some True"
    and tr: "tr = EvLog ([CHR 0xF0, CHR 0x9F, CHR 0xA4, CHR 0x96] @
            '' Starting cherry-pick to '' @ targetBranch @ ''...'') #
          EvGetPR (RepoOwner cfg) (RepoName cfg) (PRNumber cfg) (Some p, None) # rest"
    and calls: "FindExistingPR_calls tr =
       [(RepoOwner cfg, RepoName cfg, cherryPickBranch cfg targetBranch, targetBranch)]"
    and replies: "FindExistingPR_replies tr = [reply]" and out: "out \<noteq> Panicked"
    by (elim exE conjE)
  from m have c: "\<not> (Merged p = None \<or> Merged p = Some False)" by simp
  from lookup_stage[OF run[unfolded ProcessBranch_def Let_def] tr c] obtain rest' where
    rest: "rest = EvLog (''Found merge commit: '' @ GetMergeCommitSHA (Some p)) #
       EvFindExistingPR (RepoOwner cfg) (RepoName cfg) (cherryPickBranch cfg targetBranch) targetBranch
         (fst (FindExistingPR (github ?sv) (RepoOwner cfg) (RepoName cfg)
            (cherryPickBranch cfg targetBranch) targetBranch
            (snd (GetPR (github ?sv) (RepoOwner cfg) (RepoName cfg) (PRNumber cfg) w)))) # rest'"
    by (elim exE)
  from replies have reply: "reply = fst (FindExistingPR (github ?sv) (RepoOwner cfg) (RepoName cfg)
            (cherryPickBranch cfg targetBranch) targetBranch
            (snd (GetPR (github ?sv) (RepoOwner cfg) (RepoName cfg) (PRNumber cfg) w)))"
    unfolding tr rest by simp
  have "case PullRequests_List client (RepoOwner cfg) (RepoName cfg)
            \<lparr>opt_State = ''all'',
             opt_Head = RepoOwner cfg @ '':'' @ cherryPickBranch cfg targetBranch,
             opt_Base = targetBranch, PerPage = 1\<rparr>
            (snd (PullRequests_Get client (RepoOwner cfg) (RepoName cfg) (PRNumber cfg) w)) of
       ((prs, err), w2) \<Rightarrow>
         reply =
           (if err \<noteq> None then (None, err)
            else case prs of [] \<Rightarrow> (None, None) | first # others \<Rightarrow> (first, None))"
    unfolding reply
    by (simp add: NewService_def NewDefaultGitHubClient_def DefaultGitHubClient_FindExistingPR_def
        DefaultGitHubClient_GetPR_def Let_def split: prod.splits list.splits)
  with calls replies out show ?thesis
    by (simp add: cherryPickBranch_inj) (simp add: cherryPickBranch_def split: prod.splits)
qed

theorem lookup_by_deterministic_branch_witness:
  "\<exists>out w' tr.
     exec several_matches_service (ProcessBranch test_cfg ''release'') [] = (out, w', tr) \<and>
     cherryPickBranch test_cfg ''release'' = ''cherry-pick-123-to-release'' \<and>
     FindExistingPR_calls tr = [(''owner'', ''repo'', ''cherry-pick-123-to-release'', ''release'')] \<and>
     FindExistingPR_replies tr = [(Some existing_pr, None)] \<and>
     out \<noteq> Panicked"
proof -
  let ?run = "exec several_matches_service (ProcessBranch test_cfg ''release'') []"
  have run: "exec (NewService (NewDefaultGitHubClient several_matches_client)
      (mockGitRunner (\<lambda>args. None))) (ProcessBranch test_cfg ''release'') [] =
      (fst ?run, fst (snd ?run), snd (snd ?run))"
    by (simp add: several_matches_service_def)
  have merged: "\<forall>r \<in> set (GetPR_replies (snd (snd ?run))).
      \<exists>pr. r = (Some pr, None) \<and> Merged pr = Some True"
    by (simp add: exec_several_matches_service test_pr_fields)
  from lookup_by_deterministic_branch[OF run merged] show ?thesis
    by (simp add: exec_several_matches_service test_cfg_fields show_int_123
        several_matches_client_def)
qed

text \<open>
  C10: a configuration whose pull request number is strictly negative, with a non-empty
  branch list and non-empty owner and name, passes \<^verbatim>\<open>ValidateConfig\<close>: only the number
  zero is rejected.
\<close>

theorem ValidateConfig_negative_number:
  assumes "PRNumber cfg < 0" and "Branches cfg \<noteq> []"
    and "RepoOwner cfg \<noteq> []" and "RepoName cfg \<noteq> []"
  shows "ValidateConfig cfg = None"
  using assms by (simp add: ValidateConfig_def)

theorem ValidateConfig_negative_number_witness:
  "ValidateConfig \<lparr>PRNumber = - 5, Branches = [''main''], RepoOwner = ''owner'',
     RepoName = ''repo'', GitUserName = '''', GitUserEmail = ''''\<rparr> = None"
  by (rule ValidateConfig_negative_number) simp_all

end
